theory Spec2Isabelle
  imports Main "HOL-Library.Sublist"
begin

section \<open>Python strings and values\<close>

text \<open>
  A Python \<open>str\<close> is a sequence of Unicode code points. It is modelled as a list of
  natural numbers, one per code point, so that \<open>strip\<close>, \<open>replace\<close> and \<open>in\<close>
  see the same characters as the interpreter does. \<open>ustr\<close> embeds an ASCII literal;
  the few non-ASCII characters of the source are written as their code points.
\<close>

type_synonym pystr = "nat list"

definition ustr :: "string \<Rightarrow> pystr" where
  "ustr s = map of_char s"

text \<open>
  \<open>str(n)\<close> and \<open>f"{n}"\<close> for a Python \<open>int\<close>: the decimal digits, with a
  leading minus sign for a negative number.
\<close>

function str_nat :: "nat \<Rightarrow> pystr" where
  "str_nat n = (if n < 10 then [48 + n] else str_nat (n div 10) @ [48 + n mod 10])"
  by pat_completeness auto
termination
  by (relation "measure (\<lambda>n. n)") auto

declare str_nat.simps [simp del]

definition str_int :: "int \<Rightarrow> pystr" where
  "str_int i = (if i < 0 then 45 # str_nat (nat (- i)) else str_nat (nat i))"

text \<open>
  \<open>str.strip()\<close> without an argument removes leading and trailing white space, which
  for a \<open>str\<close> is the set of code points for which \<open>str.isspace\<close> holds.
\<close>

definition is_space :: "nat \<Rightarrow> bool" where
  "is_space c \<longleftrightarrow>
     (9 \<le> c \<and> c \<le> 13) \<or> (28 \<le> c \<and> c \<le> 32) \<or> c = 133 \<or> c = 160 \<or> c = 5760
     \<or> (8192 \<le> c \<and> c \<le> 8202) \<or> c = 8232 \<or> c = 8233 \<or> c = 8239 \<or> c = 8287
     \<or> c = 12288"

definition py_strip :: "pystr \<Rightarrow> pystr" where
  "py_strip s = rev (dropWhile is_space (rev (dropWhile is_space s)))"

text \<open>
  \<open>s.replace(old, new)\<close>: the occurrences of \<open>old\<close> are found from the left and do
  not overlap; after a match the scan goes on behind it. For an empty \<open>old\<close> Python puts
  \<open>new\<close> before every character and at the end.
\<close>

function scan_replace :: "pystr \<Rightarrow> pystr \<Rightarrow> pystr \<Rightarrow> pystr" where
  "scan_replace old new [] = []"
| "scan_replace old new (c # cs) =
     (if old \<noteq> [] \<and> prefix old (c # cs)
      then new @ scan_replace old new (drop (length old) (c # cs))
      else c # scan_replace old new cs)"
  by pat_completeness auto
termination
  by (relation "measure (\<lambda>(old, new, s). length s)") auto

definition py_replace :: "pystr \<Rightarrow> pystr \<Rightarrow> pystr \<Rightarrow> pystr" where
  "py_replace old new s =
     (if old = [] then new @ concat (map (\<lambda>c. c # new) s) else scan_replace old new s)"

text \<open>\<open>a in b\<close> on two strings is the contiguous-sublist test \<^const>\<open>sublist\<close>.\<close>

text \<open>
  The values \<open>json.loads\<close> returns, which are also the cell values of a dataframe. A
  \<open>dict\<close> is an association list with distinct keys in insertion order. A \<open>float\<close> is
  kept as mantissa and binary exponent, or as one of the three special values; no
  arithmetic is done on it.
\<close>

datatype pyfloat = FNan | FInf bool | FFinite int int

datatype pyval =
    PNone
  | PBool bool
  | PInt int
  | PFloat pyfloat
  | PStr pystr
  | PList "pyval list"
  | PDict "(pystr \<times> pyval) list"

text \<open>Truth value of an object, as \<open>if not alerts\<close> tests it.\<close>

fun truthy :: "pyval \<Rightarrow> bool" where
  "truthy PNone = False"
| "truthy (PBool b) = b"
| "truthy (PInt i) = (i \<noteq> 0)"
| "truthy (PFloat (FFinite m e)) = (m \<noteq> 0)"
| "truthy (PFloat f) = True"
| "truthy (PStr s) = (s \<noteq> [])"
| "truthy (PList xs) = (xs \<noteq> [])"
| "truthy (PDict kvs) = (kvs \<noteq> [])"

text \<open>
  An exception is its class, as far as an \<open>except\<close> clause of the source can tell
  classes apart, and the text \<open>str(e)\<close> that the handlers print and search.
\<close>

datatype exc_class =
  KeyError | TypeError | ValueError | JSONDecodeError | SMTPAuthenticationError | SMTPException
  | OtherException

datatype py_exc = PyExc (exc_cls: exc_class) (exc_str: pystr)

text \<open>Values that live in \<open>st.session_state\<close>: widget values and opaque objects
  (the uploaded file).\<close>

datatype ss_val = SStr pystr | SInt int | SBool bool | SObj nat

type_synonym session_state = "pystr \<rightharpoonup> ss_val"

section \<open>Resetting the form\<close>

text \<open>
  \<^verbatim>\<open>
  def clear_form():
      st.session_state["recipient_email"] = ""
      st.session_state["business_context"] = ""
      st.session_state["alert_slider"] = 25
      st.session_state["slump_checkbox"] = False
      st.session_state["slump_slider"] = 25
      if "auto_send_checkbox" in st.session_state:
          st.session_state["auto_send_checkbox"] = False
  \<close>
\<close>

definition clear_form :: "session_state \<Rightarrow> session_state" where
  "clear_form s0 =
     (let s1 = s0(ustr ''recipient_email'' \<mapsto> SStr []);
          s2 = s1(ustr ''business_context'' \<mapsto> SStr []);
          s3 = s2(ustr ''alert_slider'' \<mapsto> SInt 25);
          s4 = s3(ustr ''slump_checkbox'' \<mapsto> SBool False);
          s5 = s4(ustr ''slump_slider'' \<mapsto> SInt 25)
      in if ustr ''auto_send_checkbox'' \<in> dom s5
         then s5(ustr ''auto_send_checkbox'' \<mapsto> SBool False)
         else s5)"

definition form_keys :: "pystr set" where
  "form_keys = {ustr ''recipient_email'', ustr ''business_context'', ustr ''alert_slider'',
                ustr ''slump_checkbox'', ustr ''slump_slider'', ustr ''auto_send_checkbox''}"

section \<open>The world outside the script\<close>

text \<open>
  The script is glue between libraries and services. What they return, or raise, is an
  input of the model: the secrets file, pandas, the generative model, \<open>json.loads\<close>,
  the texts the Python runtime produces (\<open>str\<close> of a float or a list, the messages of
  its own errors) and the SMTP server. A dataframe is an object of an arbitrary type
  \<open>'df\<close>. A call that can raise returns \<open>Inl\<close> of the exception, or \<open>Some\<close> of it
  when it has no result.
\<close>

record email_message =
  msg_content :: pystr
  msg_subject :: pystr
  msg_from :: pystr
  msg_to :: pystr

record 'df world =
  secrets :: "pystr \<rightharpoonup> pystr"
  missing_secret_text :: "pystr \<Rightarrow> pystr"
  read_csv :: "pystr \<Rightarrow> py_exc + 'df"
  to_datetime :: "'df \<Rightarrow> py_exc + 'df"
  unique_skus :: "'df \<Rightarrow> py_exc + pyval list"
  sku_data :: "'df \<Rightarrow> pyval \<Rightarrow> py_exc + 'df"
  line_chart :: "'df \<Rightarrow> py_exc option"
  to_string :: "'df \<Rightarrow> pystr"
  generate_content :: "pystr \<Rightarrow> py_exc + (py_exc + pystr)"
  json_loads :: "pystr \<Rightarrow> py_exc + pyval"
  py_str :: "pyval \<Rightarrow> pystr"
  not_subscriptable :: "pyval \<Rightarrow> pystr"
  not_iterable :: "pyval \<Rightarrow> pystr"
  build_message :: "email_message \<Rightarrow> py_exc option"
  ssl_context :: "py_exc option"
  smtp_connect :: "pystr \<Rightarrow> nat \<Rightarrow> py_exc option"
  smtp_starttls :: "py_exc option"
  smtp_login :: "pystr \<Rightarrow> pystr \<Rightarrow> py_exc option"
  smtp_send_message :: "email_message \<Rightarrow> py_exc option"
  smtp_quit :: "py_exc option"

text \<open>
  Everything the script does to the page, the model and the mail server is recorded, in
  order, as a list of events. \<open>CallSendEmail\<close> marks an invocation of \<open>send_email\<close>,
  \<open>GenerateContent\<close> a call of the model, and the \<open>Smtp\<close> events the calls made on the
  SMTP connection, whether or not they succeed.
\<close>

datatype 'df event =
    StError pystr
  | StInfo pystr
  | StWarning pystr
  | StSuccess pystr
  | StMarkdown pystr
  | StText pystr
  | StCode pystr
  | StSubheader pystr
  | StExpander pystr
  | StSpinner pystr
  | StButton pystr
  | StDataframe 'df
  | StLineChart 'df
  | GenerateContent pystr
  | CallSendEmail pystr pystr pystr
  | SmtpConnect pystr nat
  | SmtpStarttls
  | SmtpLogin pystr pystr
  | SmtpSendMessage email_message
  | SmtpQuit

text \<open>
  A piece of the script runs to a list of events and either a value or the exception that
  ended it. \<open>bnd\<close> is sequencing: the events of a statement that raises stay on the page.
\<close>

type_synonym ('e, 'a) run = "'e list \<times> (py_exc + 'a)"

definition ret :: "'a \<Rightarrow> ('e, 'a) run" where
  "ret a = ([], Inr a)"

definition emit :: "'e \<Rightarrow> ('e, unit) run" where
  "emit e = ([e], Inr ())"

definition lift :: "py_exc + 'a \<Rightarrow> ('e, 'a) run" where
  "lift r = ([], r)"

definition attempt :: "py_exc option \<Rightarrow> ('e, unit) run" where
  "attempt r = (case r of None \<Rightarrow> ([], Inr ()) | Some e \<Rightarrow> ([], Inl e))"

definition bnd :: "('e, 'a) run \<Rightarrow> ('a \<Rightarrow> ('e, 'b) run) \<Rightarrow> ('e, 'b) run" where
  "bnd m f =
     (case m of
        (es, Inl x) \<Rightarrow> (es, Inl x)
      | (es, Inr a) \<Rightarrow> (case f a of (es', r) \<Rightarrow> (es @ es', r)))"

text \<open>\<open>st.secrets[k]\<close> raises KeyError for a key the secrets file does not have.\<close>

definition secret :: "'df world \<Rightarrow> pystr \<Rightarrow> py_exc + pystr" where
  "secret w k =
     (case secrets w k of
        None \<Rightarrow> Inl (PyExc KeyError (missing_secret_text w k))
      | Some v \<Rightarrow> Inr v)"

section \<open>Sending the email\<close>

text \<open>
  The body of the \<open>with smtplib.SMTP("smtp.gmail.com", 587) as server\<close> block of
  \<open>send_email\<close>: STARTTLS, login, one message.
\<close>

definition smtp_body :: "'df world \<Rightarrow> pystr \<Rightarrow> pystr \<Rightarrow> email_message \<Rightarrow> ('df event, unit) run" where
  "smtp_body w sender_email sender_password msg =
     bnd (emit SmtpStarttls) (\<lambda>_.
     bnd (attempt (smtp_starttls w)) (\<lambda>_.
     bnd (emit (SmtpLogin sender_email sender_password)) (\<lambda>_.
     bnd (attempt (smtp_login w sender_email sender_password)) (\<lambda>_.
     bnd (emit (SmtpSendMessage msg)) (\<lambda>_.
     attempt (smtp_send_message w msg))))))"

text \<open>
  Leaving the \<open>with\<close> block, normally or by an exception, sends QUIT; an exception raised
  there replaces the one of the block.
\<close>

definition smtp_with :: "'df world \<Rightarrow> ('df event, unit) run \<Rightarrow> ('df event, unit) run" where
  "smtp_with w block =
     (case block of
        (es, r) \<Rightarrow>
          (case smtp_quit w of
             None \<Rightarrow> (es @ [SmtpQuit], r)
           | Some e \<Rightarrow> (es @ [SmtpQuit], Inl e)))"

text \<open>The second \<open>try\<close> block of \<open>send_email\<close>, lines 69 to 78.\<close>

definition smtp_session :: "'df world \<Rightarrow> pystr \<Rightarrow> pystr \<Rightarrow> pystr \<Rightarrow> pystr \<Rightarrow> pystr \<Rightarrow> ('df event, unit) run" where
  "smtp_session w sender_email sender_password recipient_email subject body =
     (let msg = \<lparr>msg_content = body, msg_subject = subject, msg_from = sender_email,
                 msg_to = recipient_email\<rparr>
      in bnd (attempt (build_message w msg)) (\<lambda>_.
         bnd (attempt (ssl_context w)) (\<lambda>_.
         bnd (emit (SmtpConnect (ustr ''smtp.gmail.com'') 587)) (\<lambda>_.
         bnd (attempt (smtp_connect w (ustr ''smtp.gmail.com'') 587)) (\<lambda>_.
         smtp_with w (smtp_body w sender_email sender_password msg))))))"

definition credentials_missing_result :: "'df event list \<times> bool \<times> pystr" where
  "credentials_missing_result =
     ([StError (ustr ''Email Send Error: 'SENDER_EMAIL' or 'SENDER_PASSWORD' not found in secrets.''),
       StInfo (ustr ''Please add your dummy email credentials to the .streamlit/secrets.toml file.'')],
      False, ustr ''Email credentials not configured in secrets.'')"

text \<open>
  \<open>send_email(recipient_email, subject, body)\<close> returns the pair \<open>(success, message)\<close>;
  the model also returns the events of the call.
\<close>

definition send_email :: "'df world \<Rightarrow> pystr \<Rightarrow> pystr \<Rightarrow> pystr \<Rightarrow> 'df event list \<times> bool \<times> pystr" where
  "send_email w recipient_email subject body =
     (case secrets w (ustr ''SENDER_EMAIL'') of
        None \<Rightarrow> credentials_missing_result
      | Some sender_email \<Rightarrow>
          (case secrets w (ustr ''SENDER_PASSWORD'') of
             None \<Rightarrow> credentials_missing_result
           | Some sender_password \<Rightarrow>
               (case smtp_session w sender_email sender_password recipient_email subject body of
                  (es, Inr _) \<Rightarrow> (es, True, ustr ''Email sent successfully!'')
                | (es, Inl e) \<Rightarrow>
                    if sublist (ustr ''Username and Password not accepted'') (exc_str e)
                    then (es @ [StError (ustr ''Email Send Error: Your SENDER_EMAIL or SENDER_PASSWORD in secrets.toml is incorrect. Please check your 16-digit App Password.'')],
                          False, ustr ''Email credentials failed.'')
                    else (es @ [StError (ustr ''Email Send Error: '' @ exc_str e)],
                          False, ustr ''Email failed to send: '' @ exc_str e))))"

section \<open>The form\<close>

text \<open>
  The values of the widgets in one run of the script: the content of the uploaded file
  if there is one, the text fields, sliders and checkboxes under their widget keys, and
  whether each of the two buttons reports a click in this run.
\<close>

record form =
  uploaded_file :: "pystr option"
  recipient_email :: pystr
  business_context :: pystr
  alert_slider :: int
  slump_checkbox :: bool
  slump_slider :: int
  auto_send_checkbox :: bool
  analyze_clicked :: bool
  send_clicked :: bool

definition alert_threshold :: "form \<Rightarrow> int" where
  "alert_threshold f = alert_slider f"

definition warn_on_slump :: "form \<Rightarrow> bool" where
  "warn_on_slump f = slump_checkbox f"

text \<open>Lines 123 to 131: the slump slider exists only when the checkbox is ticked.\<close>

definition slump_threshold :: "form \<Rightarrow> int" where
  "slump_threshold f = (if warn_on_slump f then slump_slider f else 25)"

text \<open>Lines 137 to 144: without a recipient the auto-send checkbox is not shown.\<close>

definition auto_send :: "form \<Rightarrow> bool" where
  "auto_send f = (if recipient_email f = [] then False else auto_send_checkbox f)"

section \<open>Prompt assembly\<close>

text \<open>Lines 173 to 182. The arguments are the spike threshold, the slump flag and the
  slump threshold.\<close>

definition slump_task :: "int \<Rightarrow> pystr" where
  \<open>slump_task st =
     ustr ''- **Task 3 (Slumps):** Check for sales >'' @ str_int st @
     ustr ''% *below* the 7-day average. A "Slump" is >'' @ str_int st @
     ustr ''% sales *lower* than the 7-day moving average.''\<close>

definition slump_instructions :: "bool \<Rightarrow> int \<Rightarrow> pystr" where
  "slump_instructions warn st =
     (if warn
      then ustr ''\<newline>                '' @ slump_task st @ ustr ''\<newline>                ''
      else [])"

definition spinner_text :: "int \<Rightarrow> bool \<Rightarrow> int \<Rightarrow> pystr" where
  "spinner_text at warn st =
     (if warn
      then ustr ''AI is analyzing for spikes (>'' @ str_int at @ ustr ''%) and slumps (<'' @
           str_int st @ ustr ''%)...''
      else ustr ''AI is analyzing for spikes > '' @ str_int at @ ustr ''%...'')"

definition subject_text :: "int \<Rightarrow> bool \<Rightarrow> pystr" where
  "subject_text at warn =
     (if warn
      then ustr ''SUBJECT: '' @ [128200, 128201] @
           ustr '' Sales Velocity Alert (Spikes & Slumps Detected)''
      else ustr ''SUBJECT: '' @ [128680] @ ustr '' URGENT: Demand Spike Warning (Threshold: '' @
           str_int at @ ustr ''%)'')"

text \<open>Line 263.\<close>

definition subject_clean :: "int \<Rightarrow> bool \<Rightarrow> pystr" where
  "subject_clean at warn = py_replace (ustr ''SUBJECT: '') [] (subject_text at warn)"

text \<open>Lines 185 to 212: the f-string, cut at its four slots.\<close>

definition prompt_head :: pystr where
  \<open>prompt_head =
     ustr ''\<newline>'' @
     ustr ''            You are a "Sales Velocity Analyst".\<newline>'' @
     ustr ''            Analyze the following sales DATA and consider the business CONTEXT.\<newline>'' @
     ustr ''            Respond with *ONLY* a JSON list of all spikes and slumps, wrapped in ```json ... ``` tags.\<newline>'' @
     ustr ''            If no issues are found, respond with an empty list: [].\<newline>'' @
     ustr ''\<newline>'' @
     ustr ''            DATA:\<newline>'' @
     ustr ''            ''\<close>

definition prompt_context :: pystr where
  \<open>prompt_context =
     ustr ''\<newline>'' @
     ustr ''\<newline>'' @
     ustr ''            CURRENT BUSINESS CONTEXT:\<newline>'' @
     ustr ''            ''\<close>

definition prompt_tasks :: pystr where
  \<open>prompt_tasks =
     ustr ''\<newline>'' @
     ustr ''\<newline>'' @
     ustr ''            YOUR TASKS:\<newline>'' @
     ustr ''            1.  **Analyze Data:** Segregate by 'sku'.\<newline>'' @
     ustr ''            ''\<close>

definition spike_task :: "int \<Rightarrow> pystr" where
  \<open>spike_task at =
     ustr ''2.  **Task 2 (Spikes):** Check for sales >'' @ str_int at @
     ustr ''% *above* the 7-day average.''\<close>

definition prompt_format :: pystr where
  \<open>prompt_format =
     ustr ''\<newline>'' @
     ustr ''\<newline>'' @
     ustr ''            JSON FORMAT FOR EACH ISSUE:\<newline>'' @
     ustr ''            {\<newline>'' @
     ustr ''                "type": "spike" or "slump",\<newline>'' @
     ustr ''                "sku": "The SKU name",\<newline>'' @
     ustr ''                "location": "The location",\<newline>'' @
     ustr ''                "today_sales": "The most recent sales number",\<newline>'' @
     ustr ''                "avg_sales": "The calculated 7-day average",\<newline>'' @
     ustr ''                "change_pct": "The % increase or decrease",\<newline>'' @
     ustr ''                "cause": "Your suggested cause, using business context if relevant."\<newline>'' @
     ustr ''            }\<newline>'' @
     ustr ''            ''\<close>

definition prompt_template :: "pystr \<Rightarrow> pystr \<Rightarrow> int \<Rightarrow> pystr \<Rightarrow> pystr" where
  "prompt_template data_as_text context at slump_text =
     prompt_head @ data_as_text @ prompt_context @ context @ prompt_tasks @ spike_task at @
     ustr ''\<newline>            '' @ slump_text @ prompt_format"

definition prompt :: "pystr \<Rightarrow> pystr \<Rightarrow> int \<Rightarrow> bool \<Rightarrow> int \<Rightarrow> pystr" where
  "prompt data_as_text context at warn st =
     prompt_template data_as_text context at (slump_instructions warn st)"

section \<open>Reading the reply\<close>

text \<open>Line 221: \<open>response.text.strip().replace("```json", "").replace("```", "")\<close>.\<close>

definition json_text :: "pystr \<Rightarrow> pystr" where
  "json_text response_text =
     py_replace (ustr ''```'') [] (py_replace (ustr ''```json'') [] (py_strip response_text))"

text \<open>
  \<open>alert[key]\<close> with a string key: a dict gives the value or raises KeyError, whose
  text is the quoted key; every other value raises TypeError.
\<close>

definition subscript :: "'df world \<Rightarrow> pyval \<Rightarrow> pystr \<Rightarrow> py_exc + pyval" where
  "subscript w v k =
     (case v of
        PDict kvs \<Rightarrow>
          (case map_of kvs k of
             None \<Rightarrow> Inl (PyExc KeyError ([39] @ k @ [39]))
           | Some x \<Rightarrow> Inr x)
      | _ \<Rightarrow> Inl (PyExc TypeError (not_subscriptable w v)))"

text \<open>
  \<open>for alert in alerts\<close>: a list gives its elements, a dict its keys, a string its
  characters; nothing else can be iterated.
\<close>

definition py_iter :: "'df world \<Rightarrow> pyval \<Rightarrow> py_exc + pyval list" where
  "py_iter w v =
     (case v of
        PList xs \<Rightarrow> Inr xs
      | PDict kvs \<Rightarrow> Inr (map (\<lambda>kv. PStr (fst kv)) kvs)
      | PStr s \<Rightarrow> Inr (map (\<lambda>c. PStr [c]) s)
      | _ \<Rightarrow> Inl (PyExc TypeError (not_iterable w v)))"

text \<open>\<open>f"{v}"\<close>: a string is itself, an int its digits; the rest is \<open>str(v)\<close>.\<close>

definition py_format :: "'df world \<Rightarrow> pyval \<Rightarrow> pystr" where
  "py_format w v =
     (case v of
        PStr s \<Rightarrow> s
      | PInt i \<Rightarrow> str_int i
      | PBool b \<Rightarrow> (if b then ustr ''True'' else ustr ''False'')
      | PNone \<Rightarrow> ustr ''None''
      | _ \<Rightarrow> py_str w v)"

section \<open>Rendering the alerts\<close>

definition email_greeting :: pystr where
  "email_greeting = ustr ''Hi Team,\<newline>\<newline>My analysis is complete. Here are the findings:\<newline>\<newline>''"

definition no_warnings :: pystr where
  "no_warnings = ustr ''All SKUs are operating within normal sales velocity. No warnings to report.''"

definition email_signature :: pystr where
  "email_signature = ustr ''\<newline>\<newline>Best,\<newline>Sales Velocity Agent''"

definition spike_heading :: "int \<Rightarrow> pystr" where
  "spike_heading at = ustr ''### '' @ [9888, 65039] @ ustr '' SPIKE WARNING (>'' @ str_int at @ ustr ''%)''"

definition slump_heading :: "int \<Rightarrow> pystr" where
  "slump_heading st = ustr ''### '' @ [128201] @ ustr '' SLUMP WARNING (>'' @ str_int st @ ustr ''%)''"

definition spike_email_heading :: "int \<Rightarrow> pystr" where
  "spike_email_heading at =
     ustr ''--- \<newline> '' @ [9888, 65039] @ ustr '' SPIKE WARNING (>'' @ str_int at @ ustr ''%) \<newline>''"

definition slump_email_heading :: "int \<Rightarrow> pystr" where
  "slump_email_heading st =
     ustr ''--- \<newline> '' @ [128201] @ ustr '' SLUMP WARNING (>'' @ str_int st @ ustr ''%) \<newline>''"

text \<open>Lines 231 to 238: the heading of the card and the heading of the email block,
  chosen by the value of \<open>alert['type']\<close>.\<close>

definition alert_heading :: "int \<Rightarrow> int \<Rightarrow> pyval \<Rightarrow> pystr \<times> pystr" where
  "alert_heading at st ty =
     (if ty = PStr (ustr ''spike'')
      then (spike_heading at, spike_email_heading at)
      else (slump_heading st, slump_email_heading st))"

text \<open>One \<open>st.markdown(f"...{alert[key]}...")\<close>, and one line added to the email.\<close>

definition show_field :: "'df world \<Rightarrow> pyval \<Rightarrow> pystr \<Rightarrow> pystr \<Rightarrow> pystr \<Rightarrow> ('df event, unit) run" where
  "show_field w alert key before after =
     bnd (lift (subscript w alert key)) (\<lambda>v.
     emit (StMarkdown (before @ py_format w v @ after)))"

definition field_line :: "'df world \<Rightarrow> pyval \<Rightarrow> pystr \<Rightarrow> pystr \<Rightarrow> pystr \<Rightarrow> ('df event, pystr) run" where
  "field_line w alert key before after =
     bnd (lift (subscript w alert key)) (\<lambda>v.
     ret (before @ py_format w v @ after))"

text \<open>
  The \<open>if\<close> statement of lines 231 to 238 for one alert: a rule and the heading go on
  the page, and the heading of the block is added to the email text so far.
\<close>

definition alert_heading_step :: "'df world \<Rightarrow> int \<Rightarrow> int \<Rightarrow> pyval \<Rightarrow> pystr \<Rightarrow> ('df event, pystr) run" where
  "alert_heading_step w at st alert body =
     bnd (lift (subscript w alert (ustr ''type''))) (\<lambda>ty.
     bnd (emit (StMarkdown (ustr ''---''))) (\<lambda>_.
     bnd (emit (StMarkdown (fst (alert_heading at st ty)))) (\<lambda>_.
     ret (body @ snd (alert_heading at st ty)))))"

text \<open>
  The body of the loop, lines 231 to 257, for one alert. It takes the email text so far
  and returns it with the block of this alert added.
\<close>

definition render_alert :: "'df world \<Rightarrow> int \<Rightarrow> int \<Rightarrow> 'df \<Rightarrow> pyval \<Rightarrow> pystr \<Rightarrow> ('df event, pystr) run" where
  "render_alert w at st df alert body =
     bnd (alert_heading_step w at st alert body) (\<lambda>body1.
     bnd (show_field w alert (ustr ''sku'') (ustr ''* **SKU:** `'') (ustr ''`'')) (\<lambda>_.
     bnd (show_field w alert (ustr ''location'') (ustr ''* **Location:** `'') (ustr ''`'')) (\<lambda>_.
     bnd (show_field w alert (ustr ''today_sales'') (ustr ''* **Today's Sales:** `'') (ustr ''`'')) (\<lambda>_.
     bnd (show_field w alert (ustr ''avg_sales'') (ustr ''* **7-Day Average:** `'') (ustr ''`'')) (\<lambda>_.
     bnd (show_field w alert (ustr ''change_pct'') (ustr ''* **Change:** `'') (ustr ''%`'')) (\<lambda>_.
     bnd (show_field w alert (ustr ''cause'') (ustr ''* **Suggested Cause:** '') []) (\<lambda>_.
     bnd (show_field w alert (ustr ''sku'') (ustr ''**Data for '') (ustr '':**'')) (\<lambda>_.
     bnd (lift (subscript w alert (ustr ''sku''))) (\<lambda>sku.
     bnd (lift (sku_data w df sku)) (\<lambda>chart_data.
     bnd (attempt (line_chart w chart_data)) (\<lambda>_.
     bnd (emit (StLineChart chart_data)) (\<lambda>_.
     bnd (field_line w alert (ustr ''sku'') (ustr ''* SKU: '') (ustr '' \<newline>'')) (\<lambda>l1.
     bnd (field_line w alert (ustr ''location'') (ustr ''* Location: '') (ustr '' \<newline>'')) (\<lambda>l2.
     bnd (field_line w alert (ustr ''today_sales'') (ustr ''* Today's Sales: '') (ustr '' \<newline>'')) (\<lambda>l3.
     bnd (field_line w alert (ustr ''avg_sales'') (ustr ''* 7-Day Average: '') (ustr '' \<newline>'')) (\<lambda>l4.
     bnd (field_line w alert (ustr ''change_pct'') (ustr ''* Change: '') (ustr ''% \<newline>'')) (\<lambda>l5.
     bnd (field_line w alert (ustr ''cause'') (ustr ''* Suggested Cause: '') (ustr '' \<newline>\<newline>'')) (\<lambda>l6.
     ret (body1 @ l1 @ l2 @ l3 @ l4 @ l5 @ l6)))))))))))))))))))"

text \<open>The loop of line 230 over the items of \<open>alerts\<close>.\<close>

fun alerts_loop :: "'df world \<Rightarrow> int \<Rightarrow> int \<Rightarrow> 'df \<Rightarrow> pyval list \<Rightarrow> pystr \<Rightarrow> ('df event, pystr) run" where
  "alerts_loop w at st df [] body = ret body"
| "alerts_loop w at st df (alert # rest) body =
     bnd (render_alert w at st df alert body) (\<lambda>body'. alerts_loop w at st df rest body')"

text \<open>Lines 224 to 260: the report on the page and the text of the email.\<close>

definition render_report :: "'df world \<Rightarrow> int \<Rightarrow> int \<Rightarrow> 'df \<Rightarrow> pyval \<Rightarrow> ('df event, pystr) run" where
  "render_report w at st df alerts =
     bnd (if \<not> truthy alerts
          then bnd (emit (StMarkdown no_warnings)) (\<lambda>_. ret (email_greeting @ no_warnings))
          else bnd (lift (py_iter w alerts)) (\<lambda>items.
               alerts_loop w at st df items email_greeting)) (\<lambda>body.
     bnd (emit (StMarkdown (ustr ''---''))) (\<lambda>_.
     ret (body @ email_signature)))"

section \<open>Sending or offering the report\<close>

text \<open>
  Lines 268 to 275 and again 282 to 289: the spinner text reads the sender address from
  the secrets, then \<open>send_email\<close> is called and a success is reported. A failure has
  been reported by \<open>send_email\<close> itself.
\<close>

definition email_step :: "'df world \<Rightarrow> pystr \<Rightarrow> pystr \<Rightarrow> pystr \<Rightarrow> ('df event, unit) run" where
  "email_step w recipient subject body =
     bnd (lift (secret w (ustr ''SENDER_EMAIL''))) (\<lambda>sender.
     bnd (emit (StSpinner (ustr ''Sending email from '' @ sender @ ustr ''...''))) (\<lambda>_.
     bnd (emit (CallSendEmail recipient subject body)) (\<lambda>_.
     (case send_email w recipient subject body of
        (es, success, message) \<Rightarrow>
          (es @ (if success then [StSuccess message] else []), Inr ())))))"

text \<open>Lines 265 to 289.\<close>

definition deliver :: "'df world \<Rightarrow> form \<Rightarrow> pystr \<Rightarrow> pystr \<Rightarrow> ('df event, unit) run" where
  "deliver w f subject body =
     (if auto_send f
      then bnd (emit (StInfo (ustr ''Autonomous mode enabled. Sending alert to `'' @
                              recipient_email f @ ustr ''`...''))) (\<lambda>_.
           email_step w (recipient_email f) subject body)
      else bnd (emit (StMarkdown (ustr ''**Ready to send the report to:** `'' @
                                  recipient_email f @ ustr ''`''))) (\<lambda>_.
           bnd (emit (StButton (ustr ''Click Here to Send the Email Alert''))) (\<lambda>_.
           if send_clicked f then email_step w (recipient_email f) subject body else ret ())))"

section \<open>The analysis\<close>

text \<open>
  The body of the inner \<open>try\<close>, lines 221 to 294. \<open>response_text\<close> is what reading
  \<open>response.text\<close> gives.
\<close>

definition process_response :: "'df world \<Rightarrow> form \<Rightarrow> 'df \<Rightarrow> pystr \<Rightarrow> py_exc + pystr \<Rightarrow> ('df event, unit) run" where
  "process_response w f df sent_prompt response_text =
     bnd (lift response_text) (\<lambda>text.
     bnd (lift (json_loads w (json_text text))) (\<lambda>alerts.
     bnd (render_report w (alert_threshold f) (slump_threshold f) df alerts) (\<lambda>email_body_text.
     bnd (deliver w f (subject_clean (alert_threshold f) (warn_on_slump f)) email_body_text) (\<lambda>_.
     bnd (emit (StMarkdown (ustr ''---''))) (\<lambda>_.
     bnd (emit (StExpander (ustr ''Click here to see the *exact* prompt sent to the AI (The 'Vibe Code')''))) (\<lambda>_.
     emit (StCode sent_prompt)))))))"

text \<open>
  The two handlers of the inner \<open>try\<close>, lines 297 to 302. Both read \<open>response.text\<close>
  again, which raises again if it raised before.
\<close>

definition response_handlers :: "py_exc + pystr \<Rightarrow> ('df event, unit) run \<Rightarrow> ('df event, unit) run" where
  "response_handlers response_text r =
     (case r of
        (es, Inr u) \<Rightarrow> (es, Inr u)
      | (es, Inl e) \<Rightarrow>
          if exc_cls e = JSONDecodeError
          then bnd (es @ [StError (ustr ''Error: The AI's response was not in the correct JSON format. Here is the raw text:'')], Inr ()) (\<lambda>_.
               bnd (lift response_text) (\<lambda>text.
               emit (StText text)))
          else bnd (es @ [StError (ustr ''Error while processing alerts: '' @ exc_str e)], Inr ()) (\<lambda>_.
               bnd (lift response_text) (\<lambda>text.
               emit (StText (ustr ''Raw AI response: '' @ text)))))"

text \<open>
  Lines 172 to 305, run when the Analyze button reports a click: the prompt is built, the
  model is called once, and the outer handler of line 304 reports whatever is left.
\<close>

definition analyze :: "'df world \<Rightarrow> form \<Rightarrow> 'df \<Rightarrow> pystr \<Rightarrow> 'df event list" where
  "analyze w f df data_as_text =
     (let sent_prompt = prompt data_as_text (business_context f) (alert_threshold f)
                          (warn_on_slump f) (slump_threshold f)
      in StSpinner (spinner_text (alert_threshold f) (warn_on_slump f) (slump_threshold f)) #
         (case bnd (emit (GenerateContent sent_prompt)) (\<lambda>_.
               bnd (lift (generate_content w sent_prompt)) (\<lambda>response.
               bnd (emit (StSuccess (ustr ''Analysis Complete!''))) (\<lambda>_.
               bnd (emit (StMarkdown (ustr ''### '' @ [129302] @ ustr '' AI-Generated Visual Report''))) (\<lambda>_.
               response_handlers response (process_response w f df sent_prompt response))))) of
            (es, Inr _) \<Rightarrow> es
          | (es, Inl e) \<Rightarrow> es @ [StError (ustr ''An error occurred during analysis: '' @ exc_str e)]))"

section \<open>The uploaded file\<close>





section \<open>Notions used in the statements\<close>

text \<open>The events that are calls on the SMTP connection.\<close>

fun is_smtp :: "'df event \<Rightarrow> bool" where
  "is_smtp (SmtpConnect h p) = True"
| "is_smtp SmtpStarttls = True"
| "is_smtp (SmtpLogin u p) = True"
| "is_smtp (SmtpSendMessage m) = True"
| "is_smtp SmtpQuit = True"
| "is_smtp _ = False"

fun is_send_email_call :: "'df event \<Rightarrow> bool" where
  "is_send_email_call (CallSendEmail r s b) = True"
| "is_send_email_call _ = False"



text \<open>The seven keys of the alert schema, and an alert object that has them all.\<close>

definition alert_keys :: "pystr list" where
  "alert_keys = [ustr ''type'', ustr ''sku'', ustr ''location'', ustr ''today_sales'',
                 ustr ''avg_sales'', ustr ''change_pct'', ustr ''cause'']"

definition well_formed_alert :: "pyval \<Rightarrow> bool" where
  "well_formed_alert alert =
     (case alert of
        PDict kvs \<Rightarrow> list_all (\<lambda>k. map_of kvs k \<noteq> None) alert_keys
      | _ \<Rightarrow> False)"

definition alert_field :: "pyval \<Rightarrow> pystr \<Rightarrow> pyval" where
  "alert_field alert k =
     (case alert of
        PDict kvs \<Rightarrow> (case map_of kvs k of Some v \<Rightarrow> v | None \<Rightarrow> PNone)
      | _ \<Rightarrow> PNone)"

text \<open>The chart of an alert can be drawn: selecting the rows of its SKU and charting
  them raise nothing.\<close>

definition chart_ok :: "'df world \<Rightarrow> 'df \<Rightarrow> pyval \<Rightarrow> bool" where
  "chart_ok w df sku =
     (case sku_data w df sku of
        Inr chart_data \<Rightarrow> line_chart w chart_data = None
      | Inl e \<Rightarrow> False)"

definition chart_of :: "'df world \<Rightarrow> 'df \<Rightarrow> pyval \<Rightarrow> 'df" where
  "chart_of w df sku = (case sku_data w df sku of Inr chart_data \<Rightarrow> chart_data | Inl e \<Rightarrow> df)"

text \<open>The card of a well-formed alert, and its block in the email.\<close>

definition alert_card :: "'df world \<Rightarrow> int \<Rightarrow> int \<Rightarrow> 'df \<Rightarrow> pyval \<Rightarrow> 'df event list" where
  "alert_card w at st df alert =
     [StMarkdown (ustr ''---''),
      StMarkdown (fst (alert_heading at st (alert_field alert (ustr ''type'')))),
      StMarkdown (ustr ''* **SKU:** `'' @ py_format w (alert_field alert (ustr ''sku'')) @ ustr ''`''),
      StMarkdown (ustr ''* **Location:** `'' @ py_format w (alert_field alert (ustr ''location'')) @ ustr ''`''),
      StMarkdown (ustr ''* **Today's Sales:** `'' @ py_format w (alert_field alert (ustr ''today_sales'')) @ ustr ''`''),
      StMarkdown (ustr ''* **7-Day Average:** `'' @ py_format w (alert_field alert (ustr ''avg_sales'')) @ ustr ''`''),
      StMarkdown (ustr ''* **Change:** `'' @ py_format w (alert_field alert (ustr ''change_pct'')) @ ustr ''%`''),
      StMarkdown (ustr ''* **Suggested Cause:** '' @ py_format w (alert_field alert (ustr ''cause''))),
      StMarkdown (ustr ''**Data for '' @ py_format w (alert_field alert (ustr ''sku'')) @ ustr '':**''),
      StLineChart (chart_of w df (alert_field alert (ustr ''sku'')))]"

definition email_block :: "'df world \<Rightarrow> int \<Rightarrow> int \<Rightarrow> pyval \<Rightarrow> pystr" where
  "email_block w at st alert =
     snd (alert_heading at st (alert_field alert (ustr ''type''))) @
     ustr ''* SKU: '' @ py_format w (alert_field alert (ustr ''sku'')) @ ustr '' \<newline>'' @
     ustr ''* Location: '' @ py_format w (alert_field alert (ustr ''location'')) @ ustr '' \<newline>'' @
     ustr ''* Today's Sales: '' @ py_format w (alert_field alert (ustr ''today_sales'')) @ ustr '' \<newline>'' @
     ustr ''* 7-Day Average: '' @ py_format w (alert_field alert (ustr ''avg_sales'')) @ ustr '' \<newline>'' @
     ustr ''* Change: '' @ py_format w (alert_field alert (ustr ''change_pct'')) @ ustr ''% \<newline>'' @
     ustr ''* Suggested Cause: '' @ py_format w (alert_field alert (ustr ''cause'')) @ ustr '' \<newline>\<newline>''"

text \<open>What the auto-send branch and the review branch do around \<open>send_email\<close>.\<close>

definition email_step_events :: "'df world \<Rightarrow> pystr \<Rightarrow> pystr \<Rightarrow> pystr \<Rightarrow> pystr \<Rightarrow> 'df event list" where
  "email_step_events w sender recipient subject body =
     [StSpinner (ustr ''Sending email from '' @ sender @ ustr ''...''),
      CallSendEmail recipient subject body] @
     fst (send_email w recipient subject body) @
     (if fst (snd (send_email w recipient subject body))
      then [StSuccess (snd (snd (send_email w recipient subject body)))] else [])"



text \<open>What lines 265 to 289 put on the page and send, given the sender address of the
  secrets: the auto-send branch, or the review branch with its button.\<close>

definition deliver_events :: "'df world \<Rightarrow> form \<Rightarrow> pystr \<Rightarrow> pystr \<Rightarrow> pystr \<Rightarrow> 'df event list" where
  "deliver_events w f sender subject body =
     (if auto_send f
      then StInfo (ustr ''Autonomous mode enabled. Sending alert to `'' @ recipient_email f @
                   ustr ''`...'') #
           email_step_events w sender (recipient_email f) subject body
      else [StMarkdown (ustr ''**Ready to send the report to:** `'' @ recipient_email f @ ustr ''`''),
            StButton (ustr ''Click Here to Send the Email Alert'')] @
           (if send_clicked f
            then email_step_events w sender (recipient_email f) subject body
            else []))"

text \<open>The end of the report, lines 292 to 294.\<close>

definition prompt_reveal :: "pystr \<Rightarrow> 'df event list" where
  "prompt_reveal sent_prompt =
     [StMarkdown (ustr ''---''),
      StExpander (ustr ''Click here to see the *exact* prompt sent to the AI (The 'Vibe Code')''),
      StCode sent_prompt]"

section \<open>Sample inputs\<close>

text \<open>
  A world in which every library call succeeds: the file parses to dataframe 0, the model
  answers with a fenced empty list, which \<open>json.loads\<close> reads, and the mail server accepts
  everything. The texts of the runtime are left empty.
\<close>

definition demo_world :: "nat world" where
  "demo_world =
     \<lparr>secrets = [ustr ''SENDER_EMAIL'' \<mapsto> ustr ''agent@shop.io'',
                 ustr ''SENDER_PASSWORD'' \<mapsto> ustr ''pw''],
      missing_secret_text = (\<lambda>k. k),
      read_csv = (\<lambda>file. Inr 0),
      to_datetime = (\<lambda>df. Inr df),
      unique_skus = (\<lambda>df. Inr [PStr (ustr ''latte'')]),
      sku_data = (\<lambda>df sku. Inr (Suc df)),
      line_chart = (\<lambda>df. None),
      to_string = (\<lambda>df. ustr ''rows''),
      generate_content = (\<lambda>p. Inr (Inr (ustr ''```json[]```''))),
      json_loads = (\<lambda>s. if s = ustr ''[]'' then Inr (PList [])
                          else Inl (PyExc JSONDecodeError (ustr ''Expecting value''))),
      py_str = (\<lambda>v. []),
      not_subscriptable = (\<lambda>v. ustr ''not subscriptable''),
      not_iterable = (\<lambda>v. ustr ''not iterable''),
      build_message = (\<lambda>m. None),
      ssl_context = None,
      smtp_connect = (\<lambda>h p. None),
      smtp_starttls = None,
      smtp_login = (\<lambda>u p. None),
      smtp_send_message = (\<lambda>m. None),
      smtp_quit = None\<rparr>"

definition demo_form :: form where
  "demo_form =
     \<lparr>uploaded_file = Some (ustr ''date,sku,sales,location''),
      recipient_email = ustr ''ops@shop.io'',
      business_context = ustr ''sale'',
      alert_slider = 25,
      slump_checkbox = False,
      slump_slider = 25,
      auto_send_checkbox = True,
      analyze_clicked = True,
      send_clicked = False\<rparr>"

definition demo_alert :: pyval where
  "demo_alert =
     PDict [(ustr ''type'', PStr (ustr ''spike'')), (ustr ''sku'', PStr (ustr ''latte'')),
            (ustr ''location'', PStr (ustr ''Pune'')), (ustr ''today_sales'', PInt 90),
            (ustr ''avg_sales'', PInt 60), (ustr ''change_pct'', PInt 50),
            (ustr ''cause'', PStr (ustr ''sale''))]"

text \<open>Two mail servers that refuse the login: one with the text Gmail gives for a wrong
  password, one with the text it gives when an app password is required.\<close>

definition bad_password_world :: "nat world" where
  "bad_password_world =
     demo_world\<lparr>smtp_login := (\<lambda>u p. Some (PyExc SMTPAuthenticationError
       (ustr ''(535, b'5.7.8 Username and Password not accepted.')'')))\<rparr>"

definition app_password_world :: "nat world" where
  "app_password_world =
     demo_world\<lparr>smtp_login := (\<lambda>u p. Some (PyExc SMTPAuthenticationError
       (ustr ''(534, b'5.7.9 Application-specific password required.')'')))\<rparr>"

text \<open>An alert whose type is neither "spike" nor "slump", and a model whose reply is
  not JSON at all.\<close>

definition surge_alert :: pyval where
  "surge_alert =
     PDict [(ustr ''type'', PStr (ustr ''surge'')), (ustr ''sku'', PStr (ustr ''mocha'')),
            (ustr ''location'', PStr (ustr ''Goa'')), (ustr ''today_sales'', PInt 10),
            (ustr ''avg_sales'', PInt 40), (ustr ''change_pct'', PInt (- 75)),
            (ustr ''cause'', PStr (ustr ''rain''))]"



text \<open>A model that answers with a list of one alert object that has no keys.\<close>

definition keyless_world :: "nat world" where
  "keyless_world =
     demo_world\<lparr>generate_content := (\<lambda>p. Inr (Inr (ustr ''```json[{}]```''))),
                json_loads := (\<lambda>s. if s = ustr ''[{}]'' then Inr (PList [PDict []])
                                    else Inl (PyExc JSONDecodeError (ustr ''Expecting value'')))\<rparr>"


section \<open>Properties of the reset\<close>

lemma form_key_facts:
  "ustr ''recipient_email'' \<noteq> ustr ''business_context''"
  "ustr ''recipient_email'' \<noteq> ustr ''alert_slider''"
  "ustr ''recipient_email'' \<noteq> ustr ''slump_checkbox''"
  "ustr ''recipient_email'' \<noteq> ustr ''slump_slider''"
  "ustr ''recipient_email'' \<noteq> ustr ''auto_send_checkbox''"
  "ustr ''business_context'' \<noteq> ustr ''alert_slider''"
  "ustr ''business_context'' \<noteq> ustr ''slump_checkbox''"
  "ustr ''business_context'' \<noteq> ustr ''slump_slider''"
  "ustr ''business_context'' \<noteq> ustr ''auto_send_checkbox''"
  "ustr ''alert_slider'' \<noteq> ustr ''slump_checkbox''"
  "ustr ''alert_slider'' \<noteq> ustr ''slump_slider''"
  "ustr ''alert_slider'' \<noteq> ustr ''auto_send_checkbox''"
  "ustr ''slump_checkbox'' \<noteq> ustr ''slump_slider''"
  "ustr ''slump_checkbox'' \<noteq> ustr ''auto_send_checkbox''"
  "ustr ''slump_slider'' \<noteq> ustr ''auto_send_checkbox''"
  by (simp_all add: ustr_def)

text \<open>
  Claim C10. \<open>clear_form\<close> writes the six form keys and nothing else: the two text
  fields become the empty string, both sliders 25, the slump checkbox False, and the
  auto-send checkbox False only when that key was already present (it stays absent
  otherwise); every other entry of the session state, the uploaded file included, is
  what it was.
\<close>

theorem clear_form_frame:
  "clear_form s (ustr ''recipient_email'') = Some (SStr [])
   \<and> clear_form s (ustr ''business_context'') = Some (SStr [])
   \<and> clear_form s (ustr ''alert_slider'') = Some (SInt 25)
   \<and> clear_form s (ustr ''slump_slider'') = Some (SInt 25)
   \<and> clear_form s (ustr ''slump_checkbox'') = Some (SBool False)
   \<and> clear_form s (ustr ''auto_send_checkbox'') =
        (if ustr ''auto_send_checkbox'' \<in> dom s then Some (SBool False) else None)
   \<and> (\<forall>k. k \<notin> form_keys \<longrightarrow> clear_form s k = s k)"
proof -
  have absent: "s (ustr ''auto_send_checkbox'') = None"
    if "ustr ''auto_send_checkbox'' \<notin> dom s"
    using that by (simp add: domIff)
  show ?thesis
    using form_key_facts absent
    by (auto simp: clear_form_def Let_def form_keys_def)
qed

theorem clear_form_frame_witness:
  "ustr ''file_uploader'' \<notin> form_keys
   \<and> clear_form [ustr ''file_uploader'' \<mapsto> SObj 7, ustr ''alert_slider'' \<mapsto> SInt 40]
        (ustr ''file_uploader'') = Some (SObj 7)
   \<and> clear_form [ustr ''file_uploader'' \<mapsto> SObj 7, ustr ''alert_slider'' \<mapsto> SInt 40]
        (ustr ''alert_slider'') = Some (SInt 25)
   \<and> clear_form [ustr ''file_uploader'' \<mapsto> SObj 7, ustr ''alert_slider'' \<mapsto> SInt 40]
        (ustr ''auto_send_checkbox'') = None"
proof -
  have nk: "ustr ''file_uploader'' \<notin> form_keys"
    by (simp add: form_keys_def ustr_def)
  have na: "ustr ''auto_send_checkbox'' \<notin>
              dom [ustr ''file_uploader'' \<mapsto> SObj 7, ustr ''alert_slider'' \<mapsto> SInt 40]"
    by (simp add: ustr_def)
  have fu: "ustr ''file_uploader'' \<noteq> ustr ''alert_slider''"
    by (simp add: ustr_def)
  show ?thesis
    using nk na fu
      clear_form_frame [of "[ustr ''file_uploader'' \<mapsto> SObj 7, ustr ''alert_slider'' \<mapsto> SInt 40]"]
    by simp
qed

section \<open>Running pieces of the script\<close>

lemma bnd_simps:
  "bnd (ret a) f = f a"
  "bnd (emit e) g = (e # fst (g ()), snd (g ()))"
  "bnd (lift (Inr a)) f = f a"
  "bnd (lift (Inl x)) f = ([], Inl x)"
  "bnd (attempt None) g = g ()"
  "bnd (attempt (Some x)) g = ([], Inl x)"
  "bnd (es, Inr a) f = (es @ fst (f a), snd (f a))"
  "bnd (es, Inl x) f = (es, Inl x)"
  "attempt None = ([], Inr ())"
  "attempt (Some x) = ([], Inl x)"
  by (simp_all add: bnd_def ret_def emit_def lift_def attempt_def split: prod.splits)

lemma demo_secrets:
  "secrets demo_world (ustr ''SENDER_EMAIL'') = Some (ustr ''agent@shop.io'')"
  "secrets demo_world (ustr ''SENDER_PASSWORD'') = Some (ustr ''pw'')"
  by (simp_all add: demo_world_def ustr_def)

lemma demo_smtp_session:
  "smtp_session demo_world se sp r s b =
     ([SmtpConnect (ustr ''smtp.gmail.com'') 587, SmtpStarttls, SmtpLogin se sp,
       SmtpSendMessage \<lparr>msg_content = b, msg_subject = s, msg_from = se, msg_to = r\<rparr>,
       SmtpQuit], Inr ())"
  by (simp add: smtp_session_def smtp_with_def smtp_body_def bnd_simps demo_world_def)


lemma smtp_session_login_raises:
  assumes "build_message w \<lparr>msg_content = b, msg_subject = s, msg_from = se, msg_to = r\<rparr> = None"
    and "ssl_context w = None"
    and "smtp_connect w (ustr ''smtp.gmail.com'') 587 = None"
    and "smtp_starttls w = None"
    and "smtp_login w se sp = Some e"
    and "smtp_quit w = None"
  shows "smtp_session w se sp r s b =
           ([SmtpConnect (ustr ''smtp.gmail.com'') 587, SmtpStarttls, SmtpLogin se sp, SmtpQuit],
            Inl e)"
  using assms by (simp add: smtp_session_def smtp_with_def smtp_body_def bnd_simps)

section \<open>Properties of \<open>send_email\<close>\<close>



text \<open>
  Claim C6, as the code has it. If either secret is absent, \<open>send_email\<close> shows the
  error and returns (False, "Email credentials not configured in secrets.") before any
  call on an SMTP connection. Otherwise an exception that ends the sending is caught: when
  its text contains "Username and Password not accepted" the result is (False, "Email
  credentials failed."), for every other text it is False with "Email failed to send: "
  and the text; this holds in particular for the exception of a refused login. With no
  exception the result is (True, "Email sent successfully!"). The three cases are all
  there are, so nothing is raised to the caller.
\<close>

theorem send_email_outcomes:
  "(secrets w (ustr ''SENDER_EMAIL'') = None \<or> secrets w (ustr ''SENDER_PASSWORD'') = None \<longrightarrow>
      send_email w r s b =
        ([StError (ustr ''Email Send Error: 'SENDER_EMAIL' or 'SENDER_PASSWORD' not found in secrets.''),
          StInfo (ustr ''Please add your dummy email credentials to the .streamlit/secrets.toml file.'')],
         False, ustr ''Email credentials not configured in secrets.''))
   \<and> (\<forall>se sp es e.
        secrets w (ustr ''SENDER_EMAIL'') = Some se \<and> secrets w (ustr ''SENDER_PASSWORD'') = Some sp
        \<and> smtp_session w se sp r s b = (es, Inl e) \<longrightarrow>
        snd (send_email w r s b) =
          (False,
           if sublist (ustr ''Username and Password not accepted'') (exc_str e)
           then ustr ''Email credentials failed.''
           else ustr ''Email failed to send: '' @ exc_str e))
   \<and> (\<forall>se sp e.
        secrets w (ustr ''SENDER_EMAIL'') = Some se \<and> secrets w (ustr ''SENDER_PASSWORD'') = Some sp
        \<and> build_message w \<lparr>msg_content = b, msg_subject = s, msg_from = se, msg_to = r\<rparr> = None
        \<and> ssl_context w = None \<and> smtp_connect w (ustr ''smtp.gmail.com'') 587 = None
        \<and> smtp_starttls w = None \<and> smtp_login w se sp = Some e \<and> smtp_quit w = None \<longrightarrow>
        snd (send_email w r s b) =
          (False,
           if sublist (ustr ''Username and Password not accepted'') (exc_str e)
           then ustr ''Email credentials failed.''
           else ustr ''Email failed to send: '' @ exc_str e))
   \<and> (\<forall>se sp es u.
        secrets w (ustr ''SENDER_EMAIL'') = Some se \<and> secrets w (ustr ''SENDER_PASSWORD'') = Some sp
        \<and> smtp_session w se sp r s b = (es, Inr u) \<longrightarrow>
        send_email w r s b = (es, True, ustr ''Email sent successfully!''))"
  by (auto simp: send_email_def credentials_missing_result_def smtp_session_login_raises
           split: option.splits)

lemma bad_password_secrets:
  "secrets bad_password_world (ustr ''SENDER_EMAIL'') = Some (ustr ''agent@shop.io'')"
  "secrets bad_password_world (ustr ''SENDER_PASSWORD'') = Some (ustr ''pw'')"
  "secrets app_password_world (ustr ''SENDER_EMAIL'') = Some (ustr ''agent@shop.io'')"
  "secrets app_password_world (ustr ''SENDER_PASSWORD'') = Some (ustr ''pw'')"
  by (simp_all add: bad_password_world_def app_password_world_def demo_secrets)

lemma refusing_worlds:
  "build_message bad_password_world m = None" "ssl_context bad_password_world = None"
  "smtp_connect bad_password_world h p = None" "smtp_starttls bad_password_world = None"
  "smtp_quit bad_password_world = None"
  "smtp_login bad_password_world u pw =
     Some (PyExc SMTPAuthenticationError (ustr ''(535, b'5.7.8 Username and Password not accepted.')''))"
  "build_message app_password_world m = None" "ssl_context app_password_world = None"
  "smtp_connect app_password_world h p = None" "smtp_starttls app_password_world = None"
  "smtp_quit app_password_world = None"
  "smtp_login app_password_world u pw =
     Some (PyExc SMTPAuthenticationError (ustr ''(534, b'5.7.9 Application-specific password required.')''))"
  by (simp_all add: bad_password_world_def app_password_world_def demo_world_def)

lemma phrase_found:
  "sublist (ustr ''Username and Password not accepted'')
     (ustr ''(535, b'5.7.8 Username and Password not accepted.')'')"
  by (simp add: ustr_def sublist_code)

lemma phrase_not_found:
  "\<not> sublist (ustr ''Username and Password not accepted'')
     (ustr ''(534, b'5.7.9 Application-specific password required.')'')"
  by (simp add: ustr_def sublist_code)

theorem send_email_outcomes_witness:
  "secrets (demo_world\<lparr>secrets := Map.empty\<rparr>) (ustr ''SENDER_EMAIL'') = None
   \<and> snd (send_email (demo_world\<lparr>secrets := Map.empty\<rparr>) (ustr ''ops@shop.io'') (ustr ''Alert'') (ustr ''Hi''))
       = (False, ustr ''Email credentials not configured in secrets.'')
   \<and> snd (send_email bad_password_world (ustr ''ops@shop.io'') (ustr ''Alert'') (ustr ''Hi''))
       = (False, ustr ''Email credentials failed.'')
   \<and> snd (send_email app_password_world (ustr ''ops@shop.io'') (ustr ''Alert'') (ustr ''Hi''))
       = (False, ustr ''Email failed to send: '' @
                 ustr ''(534, b'5.7.9 Application-specific password required.')'')
   \<and> send_email demo_world (ustr ''ops@shop.io'') (ustr ''Alert'') (ustr ''Hi'') =
       (fst (smtp_session demo_world (ustr ''agent@shop.io'') (ustr ''pw'') (ustr ''ops@shop.io'') (ustr ''Alert'') (ustr ''Hi'')),
        True, ustr ''Email sent successfully!'')"
proof -
  have a: "secrets (demo_world\<lparr>secrets := Map.empty\<rparr>) (ustr ''SENDER_EMAIL'') = None"
    by simp
  note o1 = send_email_outcomes [of "demo_world\<lparr>secrets := Map.empty\<rparr>" "ustr ''ops@shop.io''" "ustr ''Alert''" "ustr ''Hi''"]
  note o2 = send_email_outcomes [of bad_password_world "ustr ''ops@shop.io''" "ustr ''Alert''" "ustr ''Hi''"]
  note o3 = send_email_outcomes [of app_password_world "ustr ''ops@shop.io''" "ustr ''Alert''" "ustr ''Hi''"]
  note o4 = send_email_outcomes [of demo_world "ustr ''ops@shop.io''" "ustr ''Alert''" "ustr ''Hi''"]
  have c1: "snd (send_email (demo_world\<lparr>secrets := Map.empty\<rparr>) (ustr ''ops@shop.io'') (ustr ''Alert'') (ustr ''Hi''))
       = (False, ustr ''Email credentials not configured in secrets.'')"
    using o1 a by simp
  have c2: "snd (send_email bad_password_world (ustr ''ops@shop.io'') (ustr ''Alert'') (ustr ''Hi''))
       = (False, ustr ''Email credentials failed.'')"
    using o2 bad_password_secrets refusing_worlds phrase_found by simp
  have c3: "snd (send_email app_password_world (ustr ''ops@shop.io'') (ustr ''Alert'') (ustr ''Hi''))
       = (False, ustr ''Email failed to send: '' @
                 ustr ''(534, b'5.7.9 Application-specific password required.')'')"
    using o3 bad_password_secrets refusing_worlds phrase_not_found by simp
  have c4: "send_email demo_world (ustr ''ops@shop.io'') (ustr ''Alert'') (ustr ''Hi'') =
       (fst (smtp_session demo_world (ustr ''agent@shop.io'') (ustr ''pw'') (ustr ''ops@shop.io'') (ustr ''Alert'') (ustr ''Hi'')),
        True, ustr ''Email sent successfully!'')"
    using o4 demo_secrets by (simp add: demo_smtp_session)
  show ?thesis using a c1 c2 c3 c4 by blast
qed

text \<open>
  The claim as written fails where Gmail refuses the login with another text: the
  result is then the general failure message, not "Email credentials failed.".
\<close>

theorem login_refused_counterexample:
  "smtp_login app_password_world (ustr ''agent@shop.io'') (ustr ''pw'') =
     Some (PyExc SMTPAuthenticationError (ustr ''(534, b'5.7.9 Application-specific password required.')''))
   \<and> snd (send_email app_password_world (ustr ''ops@shop.io'') (ustr ''Alert'') (ustr ''Hi''))
       \<noteq> (False, ustr ''Email credentials failed.'')"
proof -
  have "smtp_session app_password_world (ustr ''agent@shop.io'') (ustr ''pw'') (ustr ''ops@shop.io'') (ustr ''Alert'') (ustr ''Hi'')
     = ([SmtpConnect (ustr ''smtp.gmail.com'') 587, SmtpStarttls, SmtpLogin (ustr ''agent@shop.io'') (ustr ''pw''), SmtpQuit],
        Inl (PyExc SMTPAuthenticationError (ustr ''(534, b'5.7.9 Application-specific password required.')'')))"
    by (rule smtp_session_login_raises) (simp_all add: refusing_worlds)
  then have "snd (send_email app_password_world (ustr ''ops@shop.io'') (ustr ''Alert'') (ustr ''Hi''))
     = (False, ustr ''Email failed to send: '' @ ustr ''(534, b'5.7.9 Application-specific password required.')'')"
    by (simp add: send_email_def bad_password_secrets phrase_not_found)
  moreover have "ustr ''Email failed to send: '' @ ustr ''(534, b'5.7.9 Application-specific password required.')''
     \<noteq> ustr ''Email credentials failed.''"
    by (simp add: ustr_def)
  ultimately show ?thesis by (simp add: refusing_worlds)
qed

section \<open>Properties of the alert cards\<close>

lemma well_formed_alertD:
  assumes "well_formed_alert alert"
  shows "subscript w alert (ustr ''type'') = Inr (alert_field alert (ustr ''type''))"
    and "subscript w alert (ustr ''sku'') = Inr (alert_field alert (ustr ''sku''))"
    and "subscript w alert (ustr ''location'') = Inr (alert_field alert (ustr ''location''))"
    and "subscript w alert (ustr ''today_sales'') = Inr (alert_field alert (ustr ''today_sales''))"
    and "subscript w alert (ustr ''avg_sales'') = Inr (alert_field alert (ustr ''avg_sales''))"
    and "subscript w alert (ustr ''change_pct'') = Inr (alert_field alert (ustr ''change_pct''))"
    and "subscript w alert (ustr ''cause'') = Inr (alert_field alert (ustr ''cause''))"
  using assms
  by (auto simp: well_formed_alert_def alert_keys_def subscript_def alert_field_def
           split: pyval.splits)

lemma chart_okD:
  assumes "chart_ok w df sku"
  shows "sku_data w df sku = Inr (chart_of w df sku)"
    and "line_chart w (chart_of w df sku) = None"
  using assms by (auto simp: chart_ok_def chart_of_def split: sum.splits)

lemma render_alert_well_formed:
  assumes "well_formed_alert alert" and "chart_ok w df (alert_field alert (ustr ''sku''))"
  shows "render_alert w at st df alert body =
           (alert_card w at st df alert, Inr (body @ email_block w at st alert))"
  by (simp add: render_alert_def alert_heading_step_def show_field_def field_line_def bnd_simps
                well_formed_alertD [OF assms(1)] chart_okD [OF assms(2)]
                alert_card_def email_block_def ret_def emit_def)

lemma subscript_cases:
  "subscript w alert k = Inr v \<Longrightarrow> alert_field alert k = v \<and> (\<exists>kvs. alert = PDict kvs \<and> map_of kvs k = Some v)"
  by (auto simp: subscript_def alert_field_def split: pyval.splits option.splits)

lemma bnd_InrE:
  assumes "bnd m f = (es, Inr b)"
  obtains es1 a es2 where "m = (es1, Inr a)" "f a = (es2, Inr b)" "es = es1 @ es2"
  using assms by (auto simp: bnd_def split: prod.splits sum.splits)

lemma show_field_InrD:
  "show_field w alert k p q = (es, Inr u) \<Longrightarrow> \<exists>v. subscript w alert k = Inr v"
  by (auto simp: show_field_def bnd_def lift_def split: sum.splits prod.splits)

lemma render_alert_InrD:
  assumes "render_alert w at st df alert body = (es, Inr body')"
  shows "well_formed_alert alert \<and> chart_ok w df (alert_field alert (ustr ''sku''))"
proof -
  from assms obtain v1 v2 v3 v4 v5 v6 v7 where
    s: "subscript w alert (ustr ''type'') = Inr v1"
       "subscript w alert (ustr ''sku'') = Inr v2"
       "subscript w alert (ustr ''location'') = Inr v3"
       "subscript w alert (ustr ''today_sales'') = Inr v4"
       "subscript w alert (ustr ''avg_sales'') = Inr v5"
       "subscript w alert (ustr ''change_pct'') = Inr v6"
       "subscript w alert (ustr ''cause'') = Inr v7"
    and c: "chart_ok w df v2"
    unfolding render_alert_def alert_heading_step_def
    apply (elim bnd_InrE)
    apply (auto simp: lift_def chart_ok_def attempt_def dest!: show_field_InrD split: option.splits)
    done
  from s(1) obtain kvs where k: "alert = PDict kvs"
    using subscript_cases by blast
  have "well_formed_alert alert"
    using s unfolding k
    by (auto simp: well_formed_alert_def alert_keys_def subscript_def split: option.splits)
  moreover have "alert_field alert (ustr ''sku'') = v2"
    using s(2) subscript_cases by blast
  ultimately show ?thesis using c by simp
qed


lemma alerts_loop_good_prefix:
  assumes "list_all (\<lambda>a. well_formed_alert a \<and> chart_ok w df (alert_field a (ustr ''sku''))) good"
  shows "alerts_loop w at st df (good @ rest) body =
           (concat (map (alert_card w at st df) good) @
              fst (alerts_loop w at st df rest (body @ concat (map (email_block w at st) good))),
            snd (alerts_loop w at st df rest (body @ concat (map (email_block w at st) good))))"
  using assms
proof (induction good arbitrary: body)
  case Nil
  then show ?case by simp
next
  case (Cons a good)
  then have a: "well_formed_alert a" "chart_ok w df (alert_field a (ustr ''sku''))"
    and g: "list_all (\<lambda>a. well_formed_alert a \<and> chart_ok w df (alert_field a (ustr ''sku''))) good"
    by simp_all
  show ?case
    by (simp add: render_alert_well_formed [OF a] bnd_simps Cons.IH [OF g])
qed


lemma render_alert_Inr:
  assumes "render_alert w at st df alert body = (es, Inr body')"
  shows "es = alert_card w at st df alert" and "body' = body @ email_block w at st alert"
proof -
  from render_alert_InrD [OF assms]
  have "render_alert w at st df alert body =
          (alert_card w at st df alert, Inr (body @ email_block w at st alert))"
    by (simp add: render_alert_well_formed)
  with assms show "es = alert_card w at st df alert" and "body' = body @ email_block w at st alert"
    by simp_all
qed


lemma demo_alert_ok:
  "well_formed_alert demo_alert" "well_formed_alert surge_alert"
  "chart_ok demo_world df sku"
  by (simp_all add: well_formed_alert_def alert_keys_def demo_alert_def surge_alert_def ustr_def
                    chart_ok_def demo_world_def)


lemma fst_bnd_prefix: "prefix (fst m) (fst (bnd m f))"
  by (cases m) (auto simp: bnd_def split: sum.splits prod.splits)

text \<open>
  Claim C5, as the code has it. The alerts of the parsed list are rendered in order, and
  an alert that cannot be rendered ends the loop. So for every run of alerts at the front
  of the list that have the seven keys and whose chart can be drawn, the page shows
  exactly their cards, one per alert and in list order, each with the heading chosen by
  \<open>type\<close>, the six other values and the chart; and when the whole (non-empty) list is
  such, the report is these cards and a closing rule, and the email text is the greeting,
  one block per alert in the same order with its sku, location, today_sales, avg_sales,
  change_pct and cause, and the signature.
\<close>

theorem well_formed_alerts_render_cards:
  assumes "list_all (\<lambda>a. well_formed_alert a \<and> chart_ok w df (alert_field a (ustr ''sku''))) good"
  shows "prefix (concat (map (alert_card w at st df) good))
           (fst (render_report w at st df (PList (good @ rest))))
       \<and> (good \<noteq> [] \<longrightarrow>
            render_report w at st df (PList good) =
              (concat (map (alert_card w at st df) good) @ [StMarkdown (ustr ''---'')],
               Inr (email_greeting @ concat (map (email_block w at st) good) @ email_signature)))"
proof -
  have loop: "alerts_loop w at st df (good @ xs) email_greeting =
           (concat (map (alert_card w at st df) good) @
              fst (alerts_loop w at st df xs (email_greeting @ concat (map (email_block w at st) good))),
            snd (alerts_loop w at st df xs (email_greeting @ concat (map (email_block w at st) good))))"
    for xs
    by (rule alerts_loop_good_prefix [OF assms])
  have "prefix (concat (map (alert_card w at st df) good))
           (fst (render_report w at st df (PList (good @ rest))))"
  proof (cases "good @ rest = []")
    case True
    then show ?thesis by simp
  next
    case False
    have "prefix (concat (map (alert_card w at st df) good))
            (fst (alerts_loop w at st df (good @ rest) email_greeting))"
      by (simp add: loop)
    also have "prefix \<dots> (fst (render_report w at st df (PList (good @ rest))))"
      using False fst_bnd_prefix [of "alerts_loop w at st df (good @ rest) email_greeting"]
      by (simp add: render_report_def py_iter_def bnd_simps)
    finally show ?thesis .
  qed
  moreover have "render_report w at st df (PList good) =
              (concat (map (alert_card w at st df) good) @ [StMarkdown (ustr ''---'')],
               Inr (email_greeting @ concat (map (email_block w at st) good) @ email_signature))"
    if "good \<noteq> []"
    using that loop [of "[]"]
    by (simp add: render_report_def py_iter_def bnd_simps ret_def emit_def)
  ultimately show ?thesis by blast
qed

theorem well_formed_alerts_render_cards_witness:
  "list_all (\<lambda>a. well_formed_alert a \<and> chart_ok demo_world 0 (alert_field a (ustr ''sku'')))
     [demo_alert, surge_alert]
   \<and> render_report demo_world 25 30 0 (PList [demo_alert, surge_alert]) =
       (alert_card demo_world 25 30 0 demo_alert @ alert_card demo_world 25 30 0 surge_alert @
          [StMarkdown (ustr ''---'')],
        Inr (email_greeting @ email_block demo_world 25 30 demo_alert @
             email_block demo_world 25 30 surge_alert @ email_signature))"
proof -
  have h: "list_all (\<lambda>a. well_formed_alert a \<and> chart_ok demo_world 0 (alert_field a (ustr ''sku'')))
             [demo_alert, surge_alert]"
    by (simp add: demo_alert_ok)
  from well_formed_alerts_render_cards [OF h, of 25 30 "[]"] h show ?thesis
    by simp
qed

text \<open>
  The claim as written promises a card to every well-formed alert of the list. An alert
  that follows one without a \<open>type\<close> key gets none: the KeyError ends the loop before
  anything is shown.
\<close>

theorem alert_after_malformed_counterexample:
  "well_formed_alert demo_alert
   \<and> chart_ok demo_world 0 (alert_field demo_alert (ustr ''sku''))
   \<and> render_report demo_world 25 25 0 (PList [PDict [], demo_alert]) =
       ([], Inl (PyExc KeyError ([39] @ ustr ''type'' @ [39])))"
  by (simp add: demo_alert_ok render_report_def py_iter_def bnd_simps render_alert_def alert_heading_step_def
                subscript_def)

section \<open>Properties of the analysis\<close>




section \<open>Properties of the upload\<close>







section \<open>Properties of reading the reply\<close>

lemma py_strip_core:
  assumes "\<forall>c\<in>set pre. is_space c" and "\<forall>c\<in>set post. is_space c"
    and "mid \<noteq> []" and "\<not> is_space (hd mid)" and "\<not> is_space (last mid)"
  shows "py_strip (pre @ mid @ post) = mid"
proof -
  have 1: "dropWhile is_space (pre @ mid @ post) = mid @ post"
    using assms(1,3,4) by (cases mid) (simp_all add: dropWhile_append2)
  have "dropWhile is_space (rev post @ rev mid) = dropWhile is_space (rev mid)"
    by (rule dropWhile_append2) (use assms(2) in simp)
  also have "\<dots> = rev mid"
    using assms(3,5) by (cases mid rule: rev_cases) simp_all
  finally have 2: "dropWhile is_space (rev post @ rev mid) = rev mid" .
  show ?thesis
    by (simp add: py_strip_def 1 2)
qed

lemma scan_replace_absent:
  "\<not> sublist old s \<Longrightarrow> scan_replace old new s = s"
proof (induction s)
  case Nil
  then show ?case by simp
next
  case (Cons c cs)
  then have "\<not> prefix old (c # cs)" and "\<not> sublist old cs"
    by (auto simp: sublist_Cons_right)
  with Cons.IH show ?case by simp
qed

lemma scan_replace_at_front:
  "old \<noteq> [] \<Longrightarrow> scan_replace old new (old @ rest) = new @ scan_replace old new rest"
  by (cases old) simp_all

lemma sublist_not_across_end:
  assumes "\<not> sublist g s" and "length g \<le> length j"
  shows "\<not> sublist (g @ j) (s @ g)"
proof
  assume "sublist (g @ j) (s @ g)"
  then obtain ps ss where e: "s @ g = ps @ (g @ j) @ ss"
    by (auto simp: sublist_def)
  have "length (s @ g) = length (ps @ (g @ j) @ ss)"
    by (simp only: e)
  then have len: "length ps + length g \<le> length s"
    using assms(2) by simp
  have "take (length ps + length g) (s @ g) = take (length ps + length g) (ps @ (g @ j) @ ss)"
    by (simp only: e)
  then have "take (length ps + length g) s = ps @ g"
    using len by simp
  then have "s = (ps @ g) @ drop (length ps + length g) s"
    by (metis append_take_drop_id)
  then have "sublist g s"
    by (metis append_assoc sublist_appendI)
  with assms(1) show False by simp
qed

lemma fence_removed_at_end:
  assumes "\<not> sublist [c, c, c] s"
  shows "scan_replace [c, c, c] [] (s @ [c, c, c]) = s"
  using assms
proof (induction s)
  case Nil
  show ?case by simp
next
  case (Cons x xs)
  then have np: "\<not> prefix [c, c, c] (x # xs)" and ns: "\<not> sublist [c, c, c] xs"
    by (auto simp: sublist_Cons_right)
  have step: "scan_replace [c, c, c] [] (x # xs @ [c, c, c]) =
      (if [c, c, c] \<noteq> [] \<and> prefix [c, c, c] (x # xs @ [c, c, c])
       then [] @ scan_replace [c, c, c] [] (drop (length [c, c, c]) (x # xs @ [c, c, c]))
       else x # scan_replace [c, c, c] [] (xs @ [c, c, c]))"
    by (rule scan_replace.simps(2))
  show ?case
  proof (cases "prefix [c, c, c] (x # xs @ [c, c, c])")
    case False
    then have "scan_replace [c, c, c] [] (x # xs @ [c, c, c]) =
                 x # scan_replace [c, c, c] [] (xs @ [c, c, c])"
      by (simp only: step simp_thms if_False)
    then show ?thesis using Cons.IH [OF ns] by simp
  next
    case True
    then have short: "(xs = [] \<and> x = c) \<or> (xs = [c] \<and> x = c)"
      using np by (cases xs; cases "tl xs") auto
    then show ?thesis by auto
  qed
qed


lemma fence_facts:
  "ustr ''```json'' = ustr ''```'' @ ustr ''json''" "ustr ''```'' = [96, 96, 96]"
  "ustr ''```'' \<noteq> []" "ustr ''```json'' \<noteq> []"
  "\<not> is_space 96"
  by (simp_all add: ustr_def is_space_def)

lemma json_text_fenced:
  assumes "\<forall>c\<in>set pre. is_space c" and "\<forall>c\<in>set post. is_space c"
    and "\<not> sublist (ustr ''```'') s"
  shows "json_text (pre @ ustr ''```json'' @ s @ ustr ''```'' @ post) = s"
proof -
  let ?mid = "ustr ''```json'' @ s @ ustr ''```''"
  have "py_strip (pre @ ?mid @ post) = ?mid"
    by (rule py_strip_core) (use assms(1,2) in \<open>simp_all add: fence_facts(1,2,5)\<close>)
  then have 1: "py_strip (pre @ ustr ''```json'' @ s @ ustr ''```'' @ post) = ?mid"
    by simp
  have "\<not> sublist (ustr ''```'' @ ustr ''json'') (s @ ustr ''```'')"
    by (rule sublist_not_across_end) (use assms(3) in \<open>simp_all add: ustr_def\<close>)
  then have "scan_replace (ustr ''```json'') [] (s @ ustr ''```'') = s @ ustr ''```''"
    by (simp add: scan_replace_absent fence_facts(1))
  then have 2: "py_replace (ustr ''```json'') [] ?mid = s @ ustr ''```''"
    using scan_replace_at_front [of "ustr ''```json''" "[]" "s @ ustr ''```''"]
    by (simp add: py_replace_def fence_facts(4))
  have 3: "py_replace (ustr ''```'') [] (s @ ustr ''```'') = s"
    using fence_removed_at_end [of 96 s] assms(3)
    by (simp add: py_replace_def fence_facts(2))
  show ?thesis
    by (simp only: json_text_def 1 2 3)
qed

lemma render_report_empty:
  "render_report w at st df (PList []) =
     ([StMarkdown no_warnings, StMarkdown (ustr ''---'')],
      Inr (email_greeting @ no_warnings @ email_signature))"
  by (simp add: render_report_def bnd_simps ret_def emit_def)

lemma process_response_rendered:
  assumes "json_loads w (json_text text) = Inr alerts"
    and "render_report w (alert_threshold f) (slump_threshold f) df alerts = (es, Inr body)"
  shows "process_response w f df p (Inr text) =
           bnd (bnd (es, Inr ()) (\<lambda>_.
                deliver w f (subject_clean (alert_threshold f) (warn_on_slump f)) body)) (\<lambda>_.
           (prompt_reveal p, Inr ()))"
proof -
  obtain ds r where d: "deliver w f (subject_clean (alert_threshold f) (warn_on_slump f)) body = (ds, r)"
    by (cases "deliver w f (subject_clean (alert_threshold f) (warn_on_slump f)) body")
  show ?thesis
    using assms
    by (cases r) (simp_all add: process_response_def bnd_simps prompt_reveal_def emit_def d)
qed




section \<open>Properties of sending the report\<close>

lemma smtp_session_events:
  "\<forall>e\<in>set (fst (smtp_session w se sp r s b)). is_smtp e"
  by (auto simp: smtp_session_def smtp_with_def smtp_body_def bnd_def emit_def attempt_def Let_def
           split: option.splits sum.splits prod.splits)

lemma send_email_events:
  "filter is_send_email_call (fst (send_email w r s b)) = []"
proof -
  have "\<not> is_send_email_call e" if "is_smtp e" for e :: "'a event"
    using that by (cases e) simp_all
  then have "\<forall>e\<in>set (fst (smtp_session w se sp r s b)). \<not> is_send_email_call e" for se sp
    using smtp_session_events [of w se sp r s b] by blast
  then show ?thesis
    by (auto simp: send_email_def credentials_missing_result_def filter_empty_conv
             split: option.splits prod.splits sum.splits)
       (metis fst_conv)+
qed

lemma email_step_result:
  assumes "secrets w (ustr ''SENDER_EMAIL'') = Some sender"
  shows "email_step w r s b = (email_step_events w sender r s b, Inr ())"
  using assms
  by (simp add: email_step_def secret_def bnd_simps email_step_events_def split: prod.splits)

lemma deliver_result:
  assumes "secrets w (ustr ''SENDER_EMAIL'') = Some sender"
  shows "deliver w f s b = (deliver_events w f sender s b, Inr ())"
  by (simp add: deliver_def deliver_events_def bnd_simps email_step_result [OF assms] ret_def)

lemma alerts_loop_Inr:
  "alerts_loop w at st df items body = (es, Inr body') \<Longrightarrow>
     es = concat (map (alert_card w at st df) items)"
proof (induction items arbitrary: body es)
  case Nil
  then show ?case by (simp add: ret_def)
next
  case (Cons a items)
  from Cons.prems obtain es1 b1 es2 where
    1: "render_alert w at st df a body = (es1, Inr b1)"
    and 2: "alerts_loop w at st df items b1 = (es2, Inr body')"
    and 3: "es = es1 @ es2"
    by (auto elim: bnd_InrE)
  show ?case
    using render_alert_Inr(1) [OF 1] Cons.IH [OF 2] 3 by simp
qed

lemma alert_card_page: "filter is_send_email_call (alert_card w at st df a) = []"
  by (simp add: alert_card_def)

lemma render_report_no_calls:
  assumes "render_report w at st df alerts = (es, Inr body)"
  shows "filter is_send_email_call es = []"
proof (cases "truthy alerts")
  case False
  with assms show ?thesis
    by (auto simp: render_report_def bnd_simps ret_def emit_def)
next
  case True
  with assms obtain items es1 b1 where
    "alerts_loop w at st df items email_greeting = (es1, Inr b1)" and "es = es1 @ [StMarkdown (ustr ''---'')]"
    unfolding render_report_def
    by (auto elim!: bnd_InrE simp: emit_def ret_def lift_def)
  then show ?thesis
    using alerts_loop_Inr [of w at st df items email_greeting es1 b1]
    by (simp add: filter_concat comp_def alert_card_page)
qed

lemma email_step_events_calls:
  "filter is_send_email_call (email_step_events w sender r s b) = [CallSendEmail r s b]"
  by (simp add: email_step_events_def send_email_events)

lemma prompt_reveal_calls: "filter is_send_email_call (prompt_reveal p) = []"
  by (simp add: prompt_reveal_def)

text \<open>
  Claim C4, as the code has it. Take a response that \<open>json.loads\<close> has parsed, a
  report that was rendered without an exception, and secrets that hold SENDER_EMAIL. Then
  the run goes on with exactly the events of the sending step and the prompt expander. If
  the auto-send checkbox is ticked, which needs a non-empty recipient, \<open>send_email\<close>
  is called once, right after the report, with the recipient, the subject and the email
  text, whether or not the alert list is empty. If it is not ticked, the review button is
  shown, and \<open>send_email\<close> is called once if that button reports a click and not at
  all otherwise.
\<close>

theorem email_opt_in:
  assumes "json_loads w (json_text text) = Inr alerts"
    and "render_report w (alert_threshold f) (slump_threshold f) df alerts = (es, Inr body)"
    and "secrets w (ustr ''SENDER_EMAIL'') = Some sender"
  shows "process_response w f df p (Inr text) =
           (es @ deliver_events w f sender (subject_clean (alert_threshold f) (warn_on_slump f)) body @
            prompt_reveal p, Inr ())
       \<and> (auto_send f \<longrightarrow>
            filter is_send_email_call (fst (process_response w f df p (Inr text))) =
              [CallSendEmail (recipient_email f)
                 (subject_clean (alert_threshold f) (warn_on_slump f)) body])
       \<and> (\<not> auto_send f \<longrightarrow>
            StButton (ustr ''Click Here to Send the Email Alert'')
              \<in> set (fst (process_response w f df p (Inr text)))
            \<and> filter is_send_email_call (fst (process_response w f df p (Inr text))) =
                (if send_clicked f
                 then [CallSendEmail (recipient_email f)
                         (subject_clean (alert_threshold f) (warn_on_slump f)) body]
                 else []))
       \<and> (auto_send f \<longleftrightarrow> auto_send_checkbox f \<and> recipient_email f \<noteq> [])"
proof -
  let ?subj = "subject_clean (alert_threshold f) (warn_on_slump f)"
  have pr: "process_response w f df p (Inr text) =
           (es @ deliver_events w f sender ?subj body @ prompt_reveal p, Inr ())"
    by (simp add: process_response_rendered [OF assms(1,2)] deliver_result [OF assms(3)] bnd_simps)
  have no: "filter is_send_email_call es = []"
    by (rule render_report_no_calls [OF assms(2)])
  have 1: "filter is_send_email_call (fst (process_response w f df p (Inr text))) =
              [CallSendEmail (recipient_email f) ?subj body]"
    if "auto_send f"
    using that
    by (simp add: pr no deliver_events_def email_step_events_calls prompt_reveal_calls)
  have 2: "StButton (ustr ''Click Here to Send the Email Alert'')
              \<in> set (fst (process_response w f df p (Inr text)))"
    if "\<not> auto_send f"
    using that by (simp add: pr deliver_events_def)
  have 3: "filter is_send_email_call (fst (process_response w f df p (Inr text))) =
                (if send_clicked f then [CallSendEmail (recipient_email f) ?subj body] else [])"
    if "\<not> auto_send f"
    using that
    by (simp add: pr no deliver_events_def email_step_events_calls prompt_reveal_calls)
  have 4: "auto_send f \<longleftrightarrow> auto_send_checkbox f \<and> recipient_email f \<noteq> []"
    by (simp add: auto_send_def)
  show ?thesis
    using pr 1 2 3 4 by blast
qed

lemma fenced_literals:
  "ustr ''```json[]```'' = [] @ ustr ''```json'' @ ustr ''[]'' @ ustr ''```'' @ []"
  "ustr ''```json[{}]```'' = [] @ ustr ''```json'' @ ustr ''[{}]'' @ ustr ''```'' @ []"
  "\<not> sublist (ustr ''```'') (ustr ''[]'')"
  "\<not> sublist (ustr ''```'') (ustr ''[{}]'')"
  by (simp_all add: ustr_def sublist_code)

lemma json_text_samples:
  "json_text (ustr ''```json[]```'') = ustr ''[]''"
  "json_text (ustr ''```json[{}]```'') = ustr ''[{}]''"
  using json_text_fenced [of "[]" "[]" "ustr ''[]''"] json_text_fenced [of "[]" "[]" "ustr ''[{}]''"]
  by (simp_all only: fenced_literals list.set ball_empty not_False_eq_True simp_thms)

lemma demo_form_auto: "auto_send demo_form" "\<not> send_clicked demo_form"
  "recipient_email demo_form = ustr ''ops@shop.io''"
  "alert_threshold demo_form = 25" "slump_threshold demo_form = 25" "\<not> warn_on_slump demo_form"
  by (simp_all add: demo_form_def auto_send_def ustr_def alert_threshold_def slump_threshold_def
                    warn_on_slump_def)

theorem email_opt_in_witness:
  "json_loads demo_world (json_text (ustr ''```json[]```'')) = Inr (PList [])
   \<and> auto_send demo_form
   \<and> filter is_send_email_call
        (fst (process_response demo_world demo_form 0 [] (Inr (ustr ''```json[]```'')))) =
       [CallSendEmail (ustr ''ops@shop.io'') (subject_clean 25 False)
          (email_greeting @ no_warnings @ email_signature)]
   \<and> \<not> auto_send (demo_form\<lparr>auto_send_checkbox := False\<rparr>)
   \<and> filter is_send_email_call
        (fst (process_response demo_world (demo_form\<lparr>auto_send_checkbox := False\<rparr>) 0 []
               (Inr (ustr ''```json[]```'')))) = []"
proof -
  let ?g = "demo_form\<lparr>auto_send_checkbox := False\<rparr>"
  have l: "json_loads demo_world (json_text (ustr ''```json[]```'')) = Inr (PList [])"
    by (simp add: json_text_samples) (simp add: demo_world_def)
  have r: "render_report demo_world (alert_threshold f) (slump_threshold f) 0 (PList []) =
             ([StMarkdown no_warnings, StMarkdown (ustr ''---'')],
              Inr (email_greeting @ no_warnings @ email_signature))" for f
    by (rule render_report_empty)
  have g: "\<not> auto_send ?g" "\<not> send_clicked ?g"
    by (simp_all add: demo_form_def auto_send_def)
  from email_opt_in [OF l r demo_secrets(1), of demo_form "[]", THEN conjunct2, THEN conjunct1]
    demo_form_auto
  have 1: "filter is_send_email_call
        (fst (process_response demo_world demo_form 0 [] (Inr (ustr ''```json[]```'')))) =
       [CallSendEmail (ustr ''ops@shop.io'') (subject_clean 25 False)
          (email_greeting @ no_warnings @ email_signature)]"
    by simp
  from email_opt_in [OF l r demo_secrets(1), of ?g "[]", THEN conjunct2, THEN conjunct2,
                     THEN conjunct1] g
  have 2: "filter is_send_email_call
        (fst (process_response demo_world ?g 0 [] (Inr (ustr ''```json[]```'')))) = []"
    by simp
  show ?thesis
    using l demo_form_auto(1) 1 g(1) 2 by blast
qed

text \<open>
  The claim as written speaks of every successfully parsed response. With auto-send on, a
  parsed list whose alert lacks the \<open>type\<close> key ends in the handler of line 300, and
  \<open>send_email\<close> is never called.
\<close>

theorem rendering_error_counterexample:
  "auto_send demo_form
   \<and> json_loads keyless_world (json_text (ustr ''```json[{}]```'')) = Inr (PList [PDict []])
   \<and> filter is_send_email_call (analyze keyless_world demo_form 0 (ustr ''rows'')) = []"
proof -
  have g: "generate_content keyless_world p = Inr (Inr (ustr ''```json[{}]```''))" for p
    by (simp add: keyless_world_def)
  have l: "json_loads keyless_world (json_text (ustr ''```json[{}]```'')) = Inr (PList [PDict []])"
    by (simp add: json_text_samples) (simp add: keyless_world_def)
  have r: "render_report keyless_world at st 0 (PList [PDict []]) =
             ([], Inl (PyExc KeyError ([39] @ ustr ''type'' @ [39])))" for at st
    by (simp add: render_report_def py_iter_def bnd_simps render_alert_def alert_heading_step_def subscript_def)
  have p: "process_response keyless_world demo_form 0 p (Inr (ustr ''```json[{}]```'')) =
             ([], Inl (PyExc KeyError ([39] @ ustr ''type'' @ [39])))" for p
    by (simp add: process_response_def bnd_simps l r)
  have "filter is_send_email_call (analyze keyless_world demo_form 0 (ustr ''rows'')) = []"
    by (simp add: analyze_def Let_def bnd_simps g p response_handlers_def emit_def)
  then show ?thesis
    using l demo_form_auto(1) by blast
qed

section \<open>Properties of the prompt\<close>

lemma set_str_nat: "set (str_nat n) \<subseteq> {48..57}"
proof (induction n rule: str_nat.induct)
  case (1 n)
  show ?case
  proof (cases "n < 10")
    case True
    then show ?thesis by (subst str_nat.simps) simp
  next
    case False
    have "n mod 10 < 10" by simp
    then have "48 + n mod 10 \<in> {48..57}" by simp
    moreover have "set (str_nat (n div 10)) \<subseteq> {48..57}"
      using "1" False by simp
    ultimately show ?thesis
      using False by (subst str_nat.simps) simp
  qed
qed

lemma set_str_int: "set (str_int i) \<subseteq> insert 45 {48..57}"
  using set_str_nat by (auto simp: str_int_def)

lemma str_int_free:
  assumes "c \<noteq> 45" and "c < 48 \<or> 57 < c"
  shows "c \<notin> set (str_int i)"
  using set_str_int [of i] assms by auto

lemma sublist_separator:
  assumes "c \<notin> set t"
  shows "sublist t (xs @ [c] @ ys) \<longleftrightarrow> sublist t xs \<or> sublist t ys"
proof
  assume "sublist t (xs @ [c] @ ys)"
  then consider "sublist t xs" | "sublist t ([c] @ ys)"
    | t1 t2 where "t = t1 @ t2" "suffix t1 xs" "prefix t2 ([c] @ ys)"
    by (auto simp: sublist_append)
  then show "sublist t xs \<or> sublist t ys"
  proof cases
    case 1
    then show ?thesis by simp
  next
    case 2
    then have "prefix t (c # ys) \<or> sublist t ys"
      by (simp add: sublist_Cons_right)
    moreover have "t = []" if "prefix t (c # ys)"
      using that assms by (cases t) auto
    ultimately show ?thesis by auto
  next
    case 3
    have "t2 = []"
      using 3(1,3) assms by (cases t2) auto
    then show ?thesis
      using 3(1,2) by auto
  qed
next
  assume "sublist t xs \<or> sublist t ys"
  then show "sublist t (xs @ [c] @ ys)"
    by (auto simp: sublist_append sublist_Cons_right)
qed

lemma sublist_skip_front:
  assumes "t \<noteq> []" and "hd t \<notin> set xs"
  shows "sublist t (xs @ ys) \<longleftrightarrow> sublist t ys"
proof
  assume "sublist t (xs @ ys)"
  then consider "sublist t xs" | "sublist t ys"
    | t1 t2 where "t = t1 @ t2" "suffix t1 xs" "prefix t2 ys"
    by (auto simp: sublist_append)
  then show "sublist t ys"
  proof cases
    case 1
    then have "set t \<subseteq> set xs" by (rule set_mono_sublist)
    with assms show ?thesis by (cases t) auto
  next
    case 2
    then show ?thesis .
  next
    case 3
    have "t1 = []"
    proof (rule ccontr)
      assume "t1 \<noteq> []"
      then have "hd t = hd t1" using 3(1) by simp
      moreover have "hd t1 \<in> set xs"
        using \<open>t1 \<noteq> []\<close> 3(2) by (metis hd_in_set set_mono_suffix subsetD)
      ultimately show False using assms(2) by simp
    qed
    then show ?thesis using 3(1,3) by auto
  qed
next
  assume "sublist t ys"
  then show "sublist t (xs @ ys)"
    by (auto simp: sublist_append)
qed

lemma sublist_prepend: "sublist xs ys \<Longrightarrow> sublist xs (a @ ys)"
  by (metis sublist_append)

lemma sublist_in_middle:
  "sublist xs (a @ xs @ b)"
  "sublist xs (a @ b @ xs @ c)"
  "sublist xs (a @ b @ c @ xs @ d)"
  "sublist xs (a @ b @ c @ d @ xs @ e)"
  "sublist xs (a @ b @ c @ d @ e @ xs @ g)"
  "sublist xs (a @ b @ c @ d @ e @ g @ xs @ h)"
  "sublist xs (a @ b @ c @ d @ e @ g @ h @ xs @ k)"
  "sublist xs (a @ b @ c @ d @ e @ g @ h @ k @ xs @ l)"
proof -
  show 1: "sublist xs (a @ xs @ b)" for a b :: "'a list"
    by (rule sublist_appendI)
  show 2: "sublist xs (a @ b @ xs @ c)" for a b c :: "'a list"
    by (rule sublist_prepend) (rule 1)
  show 3: "sublist xs (a @ b @ c @ xs @ d)" for a b c d :: "'a list"
    by (rule sublist_prepend) (rule 2)
  show 4: "sublist xs (a @ b @ c @ d @ xs @ e)" for a b c d e :: "'a list"
    by (rule sublist_prepend) (rule 3)
  show 5: "sublist xs (a @ b @ c @ d @ e @ xs @ g)" for a b c d e g :: "'a list"
    by (rule sublist_prepend) (rule 4)
  show 6: "sublist xs (a @ b @ c @ d @ e @ g @ xs @ h)" for a b c d e g h :: "'a list"
    by (rule sublist_prepend) (rule 5)
  show 7: "sublist xs (a @ b @ c @ d @ e @ g @ h @ xs @ k)" for a b c d e g h k :: "'a list"
    by (rule sublist_prepend) (rule 6)
  show "sublist xs (a @ b @ c @ d @ e @ g @ h @ k @ xs @ l)"
    by (rule sublist_prepend) (rule 7)
qed

lemma sublist_trans: "sublist xs ys \<Longrightarrow> sublist ys zs \<Longrightarrow> sublist xs zs"
proof -
  assume "sublist xs ys" and "sublist ys zs"
  then obtain p1 s1 p2 s2 where "ys = p1 @ xs @ s1" and "zs = p2 @ ys @ s2"
    by (auto simp: sublist_def)
  then have "zs = (p2 @ p1) @ xs @ (s1 @ s2)"
    by simp
  then show "sublist xs zs"
    unfolding sublist_def by blast
qed

lemma replace_subject:
  assumes "74 \<notin> set rest"
  shows "py_replace (ustr ''SUBJECT: '') [] (ustr ''SUBJECT: '' @ rest) = rest"
proof -
  have "74 \<in> set (ustr ''SUBJECT: '')"
    by (simp add: ustr_def)
  then have "\<not> sublist (ustr ''SUBJECT: '') rest"
    using assms set_mono_sublist by blast
  then show ?thesis
    using scan_replace_at_front [of "ustr ''SUBJECT: ''" "[]" rest]
    by (simp add: py_replace_def scan_replace_absent ustr_def)
qed

lemma subject_clean_values:
  "subject_clean at True =
     [128200, 128201] @ ustr '' Sales Velocity Alert (Spikes & Slumps Detected)''"
  "subject_clean at False =
     [128680] @ ustr '' URGENT: Demand Spike Warning (Threshold: '' @ str_int at @ ustr ''%)''"
proof -
  show "subject_clean at True =
     [128200, 128201] @ ustr '' Sales Velocity Alert (Spikes & Slumps Detected)''"
    unfolding subject_clean_def subject_text_def
    by (simp only: if_True, rule replace_subject) (simp add: ustr_def)
  have "74 \<notin> set (str_int at)"
    by (rule str_int_free) simp_all
  then have "74 \<notin> set ([128680] @ ustr '' URGENT: Demand Spike Warning (Threshold: '' @
                          str_int at @ ustr ''%)'')"
    by (simp add: ustr_def)
  then show "subject_clean at False =
     [128680] @ ustr '' URGENT: Demand Spike Warning (Threshold: '' @ str_int at @ ustr ''%)''"
    unfolding subject_clean_def subject_text_def
    by (simp only: if_False) (rule replace_subject)
qed



lemma slump_task_facts:
  "slump_task st \<noteq> []" "hd (slump_task st) = 45" "10 \<notin> set (slump_task st)"
  "sublist (ustr ''Task 3'') (slump_task st)"
proof -
  show "slump_task st \<noteq> []" "hd (slump_task st) = 45"
    by (simp_all add: slump_task_def ustr_def)
  have "10 \<notin> set (str_int st)"
    by (rule str_int_free) simp_all
  then show "10 \<notin> set (slump_task st)"
    by (simp add: slump_task_def ustr_def)
  have "sublist (ustr ''Task 3'') (ustr ''- **Task 3 (Slumps):** Check for sales >'')"
    by (simp add: ustr_def sublist_code)
  then show "sublist (ustr ''Task 3'') (slump_task st)"
    unfolding slump_task_def by (simp add: sublist_append)
qed

lemma marker_facts:
  "62 \<notin> set (ustr ''Task 3'')" "37 \<notin> set (ustr ''Task 3'')" "84 \<in> set (ustr ''Task 3'')"
  by (simp_all add: ustr_def)

lemma template_heads:
  "45 \<notin> set prompt_head"
  "prompt_context = [10] @ tl prompt_context" "45 \<notin> set (tl prompt_context)"
  "prompt_tasks = [10] @ tl prompt_tasks"
  by (simp_all add: prompt_head_def prompt_context_def prompt_tasks_def ustr_def)

lemma template_tail:
  \<open>tl prompt_tasks @ spike_task at @ ustr ''\<newline>            '' @ [] @ prompt_format =
     (tl prompt_tasks @ ustr ''2.  **Task 2 (Spikes):** Check for sales '') @ [62] @
     str_int at @ [37] @
     (ustr '' *above* the 7-day average.'' @ ustr ''\<newline>            '' @ prompt_format)\<close>
  by (simp add: spike_task_def ustr_def)

lemma template_tail_clean:
  "\<not> sublist (ustr ''Task 3'')
      (tl prompt_tasks @ ustr ''2.  **Task 2 (Spikes):** Check for sales '')"
  "\<not> sublist (ustr ''Task 3'')
      (ustr '' *above* the 7-day average.'' @ ustr ''\<newline>            '' @ prompt_format)"
  by (simp_all add: prompt_tasks_def prompt_format_def ustr_def sublist_code)


lemma no_slump_task_without_flag:
  assumes "\<not> sublist (slump_task st) data" and "\<not> sublist (slump_task st) ctx"
  shows "\<not> sublist (slump_task st) (prompt_template data ctx at [])"
proof
  let ?t = "slump_task st"
  let ?m = "ustr ''Task 3''"
  let ?c1 = "tl prompt_tasks @ ustr ''2.  **Task 2 (Spikes):** Check for sales ''"
  let ?c2 = "ustr '' *above* the 7-day average.'' @ ustr ''\<newline>            '' @ prompt_format"
  let ?tail = "tl prompt_tasks @ spike_task at @ ustr ''\<newline>            '' @ [] @ prompt_format"
  assume "sublist ?t (prompt_template data ctx at [])"
  then have "sublist ?t (prompt_head @ data @ prompt_context @ ctx @ prompt_tasks @ spike_task at @
                          ustr ''\<newline>            '' @ [] @ prompt_format)"
    by (simp only: prompt_template_def)
  then have "sublist ?t (data @ prompt_context @ ctx @ prompt_tasks @ spike_task at @
                          ustr ''\<newline>            '' @ [] @ prompt_format)"
    using sublist_skip_front [of ?t prompt_head] slump_task_facts(1,2) [of st] template_heads(1)
    by simp
  then have "sublist ?t (data @ [10] @ (tl prompt_context @ ctx @ prompt_tasks @ spike_task at @
                          ustr ''\<newline>            '' @ [] @ prompt_format))"
    using template_heads(2) by (metis append_assoc)
  then have "sublist ?t (tl prompt_context @ ctx @ prompt_tasks @ spike_task at @
                          ustr ''\<newline>            '' @ [] @ prompt_format)"
    using sublist_separator [OF slump_task_facts(3)] assms(1) by blast
  then have "sublist ?t (ctx @ prompt_tasks @ spike_task at @
                          ustr ''\<newline>            '' @ [] @ prompt_format)"
    using sublist_skip_front [of ?t "tl prompt_context"] slump_task_facts(1,2) [of st]
      template_heads(3)
    by simp
  then have "sublist ?t (ctx @ [10] @ ?tail)"
    using template_heads(4) by (metis append_assoc)
  then have "sublist ?t ?tail"
    using sublist_separator [OF slump_task_facts(3)] assms(2) by blast
  then have "sublist ?m ?tail"
    using slump_task_facts(4) [of st] sublist_trans by blast
  then have "sublist ?m (?c1 @ [62] @ str_int at @ [37] @ ?c2)"
    by (simp only: template_tail)
  then have "sublist ?m ?c1 \<or> sublist ?m (str_int at @ [37] @ ?c2)"
    using sublist_separator [OF marker_facts(1)] by blast
  then have "sublist ?m (str_int at @ [37] @ ?c2)"
    using template_tail_clean(1) by blast
  then have "sublist ?m (str_int at) \<or> sublist ?m ?c2"
    using sublist_separator [OF marker_facts(2)] by blast
  then have "sublist ?m (str_int at)"
    using template_tail_clean(2) by blast
  then have "set ?m \<subseteq> set (str_int at)"
    by (rule set_mono_sublist)
  then have "84 \<in> set (str_int at)"
    using marker_facts(3) by blast
  moreover have "84 \<notin> set (str_int at)"
    by (rule str_int_free) simp_all
  ultimately show False by simp
qed

lemma prompt_contains:
  "sublist data (prompt data ctx at warn st)"
  "sublist ctx (prompt data ctx at warn st)"
  "sublist (spike_task at) (prompt data ctx at warn st)"
  "sublist (slump_task st) (prompt data ctx at True st)"
proof -
  show "sublist data (prompt data ctx at warn st)"
    unfolding prompt_def prompt_template_def by (rule sublist_in_middle(1))
  show "sublist ctx (prompt data ctx at warn st)"
    unfolding prompt_def prompt_template_def by (rule sublist_in_middle(3))
  show "sublist (spike_task at) (prompt data ctx at warn st)"
    unfolding prompt_def prompt_template_def by (rule sublist_in_middle(5))
  show "sublist (slump_task st) (prompt data ctx at True st)"
    unfolding prompt_def prompt_template_def slump_instructions_def
    by (simp only: if_True append_assoc) (rule sublist_in_middle(8))
qed

lemma variant_facts:
  "ustr ''AI is analyzing for spikes > '' @ str_int at @ ustr ''%...'' \<noteq>
     ustr ''AI is analyzing for spikes (>'' @ str_int at @ ustr ''%) and slumps (<'' @
     str_int st @ ustr ''%)...''"
  "[128680] @ ustr '' URGENT: Demand Spike Warning (Threshold: '' @ str_int at @ ustr ''%)'' \<noteq>
     [128200, 128201] @ ustr '' Sales Velocity Alert (Spikes & Slumps Detected)''"
  by (simp_all add: ustr_def)


text \<open>
  Claim C1, as the code has it. The prompt is a function of the CSV text, the business
  context, the spike threshold, the slump flag and the slump threshold. It always
  contains the CSV text, the business context and the spike task with the configured
  threshold, and it contains the slump task with the configured threshold whenever the
  flag is set. Provided neither the CSV text nor the business context contains the
  slump task text itself, the prompt contains the slump task exactly when the flag is
  set. The spinner text and the email subject are the combined spikes-and-slumps
  variants exactly when the flag is set, and the spike-only variants otherwise.
\<close>

theorem prompt_assembly:
  "sublist data (prompt data ctx at warn st)
   \<and> sublist ctx (prompt data ctx at warn st)
   \<and> sublist (spike_task at) (prompt data ctx at warn st)
   \<and> (warn \<longrightarrow> sublist (slump_task st) (prompt data ctx at warn st))
   \<and> (\<not> sublist (slump_task st) data \<and> \<not> sublist (slump_task st) ctx \<longrightarrow>
        (sublist (slump_task st) (prompt data ctx at warn st) \<longleftrightarrow> warn))
   \<and> (spinner_text at warn st =
          ustr ''AI is analyzing for spikes (>'' @ str_int at @ ustr ''%) and slumps (<'' @
          str_int st @ ustr ''%)...'' \<longleftrightarrow> warn)
   \<and> (\<not> warn \<longrightarrow>
        spinner_text at warn st = ustr ''AI is analyzing for spikes > '' @ str_int at @ ustr ''%...'')
   \<and> (subject_clean at warn =
          [128200, 128201] @ ustr '' Sales Velocity Alert (Spikes & Slumps Detected)'' \<longleftrightarrow> warn)
   \<and> (\<not> warn \<longrightarrow>
        subject_clean at warn =
          [128680] @ ustr '' URGENT: Demand Spike Warning (Threshold: '' @ str_int at @ ustr ''%)'')"
proof -
  have slump: "sublist (slump_task st) (prompt data ctx at warn st)" if warn
    using that prompt_contains(4) by simp
  have none: "\<not> sublist (slump_task st) (prompt data ctx at warn st)"
    if "\<not> sublist (slump_task st) data" and "\<not> sublist (slump_task st) ctx" and "\<not> warn"
    using no_slump_task_without_flag [OF that(1,2), of at] that(3)
    by (simp add: prompt_def slump_instructions_def)
  have spin: "spinner_text at warn st =
          ustr ''AI is analyzing for spikes (>'' @ str_int at @ ustr ''%) and slumps (<'' @
          str_int st @ ustr ''%)...'' \<longleftrightarrow> warn"
    using variant_facts(1) [of at st] by (simp add: spinner_text_def)
  have spin0: "spinner_text at warn st = ustr ''AI is analyzing for spikes > '' @ str_int at @ ustr ''%...''"
    if "\<not> warn"
    using that by (simp add: spinner_text_def)
  have subj: "subject_clean at warn =
          [128200, 128201] @ ustr '' Sales Velocity Alert (Spikes & Slumps Detected)'' \<longleftrightarrow> warn"
    using variant_facts(2) [of at] subject_clean_values [of at] by (cases warn) simp_all
  have subj0: "subject_clean at warn =
          [128680] @ ustr '' URGENT: Demand Spike Warning (Threshold: '' @ str_int at @ ustr ''%)''"
    if "\<not> warn"
    using that subject_clean_values(2) [of at] by simp
  show ?thesis
    using prompt_contains(1-3) slump none spin spin0 subj subj0
    by blast
qed

lemma slump_task_needs_dash: "45 \<notin> set xs \<Longrightarrow> \<not> sublist (slump_task st) xs"
proof
  assume "45 \<notin> set xs" and "sublist (slump_task st) xs"
  then have "set (slump_task st) \<subseteq> set xs"
    using set_mono_sublist by blast
  moreover have "45 \<in> set (slump_task st)"
    using slump_task_facts(1,2) [of st] by (metis hd_in_set)
  ultimately show False
    using \<open>45 \<notin> set xs\<close> by blast
qed

theorem prompt_assembly_witness:
  "\<not> sublist (slump_task 30) (ustr ''rows'')
   \<and> \<not> sublist (slump_task 30) (ustr ''sale'')
   \<and> \<not> sublist (slump_task 30) (prompt (ustr ''rows'') (ustr ''sale'') 25 False 30)
   \<and> sublist (slump_task 30) (prompt (ustr ''rows'') (ustr ''sale'') 25 True 30)
   \<and> subject_clean 25 True =
       [128200, 128201] @ ustr '' Sales Velocity Alert (Spikes & Slumps Detected)''"
proof -
  have d: "\<not> sublist (slump_task 30) (ustr ''rows'')" "\<not> sublist (slump_task 30) (ustr ''sale'')"
    by (rule slump_task_needs_dash, simp add: ustr_def)+
  from prompt_assembly [of "ustr ''rows''" "ustr ''sale''" 25 False 30] d
  have 1: "\<not> sublist (slump_task 30) (prompt (ustr ''rows'') (ustr ''sale'') 25 False 30)"
    by blast
  from prompt_assembly [of "ustr ''rows''" "ustr ''sale''" 25 True 30]
  have 2: "sublist (slump_task 30) (prompt (ustr ''rows'') (ustr ''sale'') 25 True 30)"
    and 3: "subject_clean 25 True =
       [128200, 128201] @ ustr '' Sales Velocity Alert (Spikes & Slumps Detected)''"
    by blast+
  show ?thesis using d 1 2 3 by blast
qed

text \<open>
  The claim as written holds for every business context. A context that is itself the
  text of the slump task puts that text into the prompt although the flag is off.
\<close>

theorem slump_task_in_context_counterexample:
  "\<not> (sublist (slump_task 25) (prompt (ustr ''rows'') (slump_task 25) 25 False 25) \<longleftrightarrow> False)"
  using prompt_contains(2) by simp

end
